theory Spec2Isabelle
  imports Main "HOL-Library.Word"
begin

unbundle bit_operations_syntax

section \<open>The host as seen from hw/vfio/common.c\<close>

text \<open>
  The file talks to the host kernel through \<^verbatim>\<open>ioctl\<close>, \<^verbatim>\<open>pread\<close>, \<^verbatim>\<open>pwrite\<close>,
  \<^verbatim>\<open>mmap\<close> and \<^verbatim>\<open>munmap\<close>.  Each call is a request value; the host is a function
  from the history of calls made so far and the current request to a reply, so that any
  deterministic host can be plugged in.  A reply carries the return value, the \<^verbatim>\<open>errno\<close>
  the host sets when the return value is negative, the bytes a \<^verbatim>\<open>pread\<close> delivers, and
  the fields an \<^verbatim>\<open>ioctl\<close> writes into the structure it is given.

  The arguments of the requests, in order: \<open>PWRITE fd bytes offset\<close>,
  \<open>PREAD fd count offset\<close>, \<open>VFIO_IOMMU_MAP_DMA fd vaddr iova size flags\<close>,
  \<open>VFIO_IOMMU_UNMAP_DMA fd iova size\<close>, \<open>MMAP length prot fd offset\<close> (a shared
  mapping at an address of the host's choice), \<open>MUNMAP addr length\<close>,
  \<open>VFIO_EEH_PE_OP fd op\<close>; \<open>OPEN_GROUP n\<close> is the \<^verbatim>\<open>qemu_open\<close> of \<^verbatim>\<open>/dev/vfio/n\<close> and
  \<open>OPEN_VFIO\<close> that of \<^verbatim>\<open>/dev/vfio/vfio\<close>; \<open>VFIO_GROUP_SET_CONTAINER group_fd fd\<close>,
  \<open>VFIO_CHECK_EXTENSION fd model\<close>, \<open>VFIO_SET_IOMMU fd model\<close>, and
  \<open>KVM_DEV_VFIO_GROUP_ADD kvm_device_fd group_fd\<close>; the others take the descriptor.
\<close>

datatype hreq =
    PWRITE int "8 word list" "64 word"
  | PREAD int "32 word" "64 word"
  | VFIO_IOMMU_MAP_DMA int "64 word" "64 word" "64 word" "32 word"
  | VFIO_IOMMU_UNMAP_DMA int "64 word" "64 word"
  | MMAP "64 word" "32 word" int "64 word"
  | MUNMAP int "64 word"
  | VFIO_EEH_PE_OP int "32 word"
  | OPEN_GROUP int
  | OPEN_VFIO
  | CLOSE int
  | VFIO_GROUP_GET_STATUS int
  | VFIO_GROUP_SET_CONTAINER int int
  | VFIO_GET_API_VERSION int
  | VFIO_CHECK_EXTENSION int int
  | VFIO_SET_IOMMU int int
  | VFIO_IOMMU_GET_INFO int
  | VFIO_IOMMU_ENABLE int
  | VFIO_IOMMU_SPAPR_TCE_GET_INFO int
  | KVM_CREATE_DEVICE_VFIO
  | KVM_DEV_VFIO_GROUP_ADD int int

record hreply =
  rv :: int
  rerrno :: int
  rdata :: "8 word list"
  rinfo :: "64 word list"

type_synonym history = "(hreq \<times> hreply) list"
type_synonym kernel = "history \<Rightarrow> hreq \<Rightarrow> hreply"

text \<open>
  The part of the process state the functions below touch: the calls made to the host with
  their replies, \<^verbatim>\<open>errno\<close>, the messages handed to \<^verbatim>\<open>error_report\<close>, and the
  end-of-interrupt hook invocations (\<^verbatim>\<open>vbasedev->ops->vfio_eoi\<close>), by device name.
\<close>

record world =
  trace :: history
  errno :: int
  reported :: "string list"
  eoi_calls :: "string list"

definition syscall :: "kernel \<Rightarrow> hreq \<Rightarrow> world \<Rightarrow> hreply \<times> world" where
  "syscall K r w =
     (let rep = K (trace w) r
      in (rep, w\<lparr>trace := trace w @ [(r, rep)],
                 errno := (if rv rep < 0 then rerrno rep else errno w)\<rparr>))"

definition error_report :: "string \<Rightarrow> world \<Rightarrow> world" where
  "error_report msg w = w\<lparr>reported := reported w @ [msg]\<rparr>"

text \<open>
  \<^verbatim>\<open>hw_error\<close> prints and aborts the process, and so does a failed \<^verbatim>\<open>assert\<close>: a call
  that reaches either never returns, and neither does one that follows a pointer to an
  object that is not there.  The outcome keeps the state at that point.
\<close>

datatype ('a, 's) outcome = Return 'a 's | HwError 's | AssertFailed 's | Segfault 's

text \<open>Linux error numbers used by the file.\<close>

definition EPERM :: int where "EPERM = 1"
definition EFAULT :: int where "EFAULT = 14"
definition EBUSY :: int where "EBUSY = 16"
definition EINVAL :: int where "EINVAL = 22"

section \<open>Trapped access: vfio_region_write and vfio_region_read\<close>

record VFIODevice =
  dev_name :: string
  dev_fd :: int
  needs_reset :: bool

record VFIOMmap =
  mmap_offset :: "64 word"
  mmap_size :: "64 word"
  mmap_ptr :: "int option"
  mem_installed :: bool

record VFIORegion =
  vbasedev :: VFIODevice
  region_flags :: "32 word"
  region_size :: "64 word"
  fd_offset :: "64 word"
  nr :: int
  region_mem :: bool
  mmaps :: "VFIOMmap list"

text \<open>
  VFIO is little endian: \<^verbatim>\<open>cpu_to_le16\<close>/\<^verbatim>\<open>cpu_to_le32\<close> store the value so that the
  bytes in memory are in little-endian order whatever the host's byte order, and
  \<^verbatim>\<open>le16_to_cpu\<close>/\<^verbatim>\<open>le32_to_cpu\<close> read them back.  The union \<^verbatim>\<open>buf\<close> is the list of its
  first \<^verbatim>\<open>size\<close> bytes.
\<close>

definition le_bytes :: "nat \<Rightarrow> 64 word \<Rightarrow> 8 word list" where
  "le_bytes n x = map (\<lambda>i. ucast (drop_bit (8 * i) x)) [0..<n]"

fun le_word :: "8 word list \<Rightarrow> 64 word" where
  "le_word [] = 0"
| "le_word (b # bs) = ucast b OR push_bit 8 (le_word bs)"

definition vfio_eoi :: "VFIODevice \<Rightarrow> world \<Rightarrow> world" where
  "vfio_eoi d w = w\<lparr>eoi_calls := eoi_calls w @ [dev_name d]\<rparr>"

definition vfio_region_write ::
  "kernel \<Rightarrow> VFIORegion \<Rightarrow> 64 word \<Rightarrow> 64 word \<Rightarrow> 32 word \<Rightarrow> world \<Rightarrow> (unit, world) outcome" where
  "vfio_region_write K region addr data sz w =
     (if sz = 1 \<or> sz = 2 \<or> sz = 4 then
        let buf = le_bytes (unat sz) data;
            (rep, w1) = syscall K (PWRITE (dev_fd (vbasedev region)) buf
                                          (fd_offset region + addr)) w;
            w2 = (if rv rep \<noteq> uint sz
                  then error_report ''vfio_region_write failed'' w1 else w1)
        in Return () (vfio_eoi (vbasedev region) w2)
      else HwError w)"

text \<open>
  \<^verbatim>\<open>pread\<close> fills \<^verbatim>\<open>buf\<close> with the bytes the host delivers; the value is decoded only
  when the host reports all \<^verbatim>\<open>size\<close> bytes read.
\<close>

definition vfio_region_read ::
  "kernel \<Rightarrow> VFIORegion \<Rightarrow> 64 word \<Rightarrow> 32 word \<Rightarrow> world \<Rightarrow> (64 word, world) outcome" where
  "vfio_region_read K region addr sz w =
     (let (rep, w1) = syscall K (PREAD (dev_fd (vbasedev region)) sz
                                       (fd_offset region + addr)) w
      in if rv rep \<noteq> uint sz
         then Return (- 1) (error_report ''vfio_region_read failed'' w1)
         else if sz = 1 \<or> sz = 2 \<or> sz = 4
         then Return (le_word (take (unat sz) (rdata rep))) (vfio_eoi (vbasedev region) w1)
         else HwError w1)"

text \<open>A device, a region and a starting state used to run the functions on.\<close>

definition dev0 :: VFIODevice where
  "dev0 = \<lparr>dev_name = ''0000:01:00.0'', dev_fd = 7, needs_reset = False\<rparr>"

definition region0 :: VFIORegion where
  "region0 = \<lparr>vbasedev = dev0, region_flags = 7, region_size = 0x2000, fd_offset = 0,
               nr = 0, region_mem = True, mmaps = []\<rparr>"

definition world0 :: world where
  "world0 = \<lparr>trace = [], errno = 0, reported = [], eoi_calls = []\<rparr>"

text \<open>A host whose positioned reads and writes transfer two bytes, whatever was asked.\<close>

definition short_host :: kernel where
  "short_host tr r = \<lparr>rv = 2, rerrno = 0, rdata = [0x34, 0x12], rinfo = []\<rparr>"

section \<open>The DMA map engine: vfio_dma_unmap and vfio_dma_map\<close>

record VFIOContainer =
  container_space :: nat
  container_fd :: int
  min_iova :: "64 word"
  max_iova :: "64 word"
  iova_pgsizes :: "64 word"
  initialized :: bool
  container_error :: int
  giommu_list :: "nat list"
  group_list :: "nat list"

text \<open>\<^verbatim>\<open>VFIO_DMA_MAP_FLAG_READ\<close> and \<^verbatim>\<open>VFIO_DMA_MAP_FLAG_WRITE\<close> of linux/vfio.h.\<close>

definition VFIO_DMA_MAP_FLAG_READ :: "32 word" where "VFIO_DMA_MAP_FLAG_READ = 1"
definition VFIO_DMA_MAP_FLAG_WRITE :: "32 word" where "VFIO_DMA_MAP_FLAG_WRITE = 2"

text \<open>
  The DMA ioctls follow the usual convention: 0 on success, and on failure -1 with a
  positive \<^verbatim>\<open>errno\<close>.
\<close>

definition ioctl_status :: "hreply \<Rightarrow> bool" where
  "ioctl_status rep = (rv rep = 0 \<or> (rv rep = - 1 \<and> 0 < rerrno rep))"

definition vfio_dma_unmap ::
  "kernel \<Rightarrow> VFIOContainer \<Rightarrow> 64 word \<Rightarrow> 64 word \<Rightarrow> world \<Rightarrow> int \<times> world" where
  "vfio_dma_unmap K container iova sz w =
     (let (rep, w1) = syscall K (VFIO_IOMMU_UNMAP_DMA (container_fd container) iova sz) w
      in if rv rep \<noteq> 0
         then (- errno w1, error_report ''VFIO_UNMAP_DMA'' w1)
         else (0, w1))"

definition map_request :: "VFIOContainer \<Rightarrow> 64 word \<Rightarrow> 64 word \<Rightarrow> 64 word \<Rightarrow> bool \<Rightarrow> hreq" where
  "map_request container iova sz vaddr readonly =
     VFIO_IOMMU_MAP_DMA (container_fd container) vaddr iova sz
       (if readonly then VFIO_DMA_MAP_FLAG_READ
        else VFIO_DMA_MAP_FLAG_READ OR VFIO_DMA_MAP_FLAG_WRITE)"

text \<open>
  The condition of the source is a short-circuit chain: the unmap runs only when the first
  attempt left \<^verbatim>\<open>errno == EBUSY\<close>, and the second attempt only when that unmap returned 0.
\<close>

definition vfio_dma_map ::
  "kernel \<Rightarrow> VFIOContainer \<Rightarrow> 64 word \<Rightarrow> 64 word \<Rightarrow> 64 word \<Rightarrow> bool \<Rightarrow> world
     \<Rightarrow> int \<times> world" where
  "vfio_dma_map K container iova sz vaddr readonly w =
     (let req = map_request container iova sz vaddr readonly;
          (rep1, w1) = syscall K req w
      in if rv rep1 = 0 then (0, w1)
         else if errno w1 = EBUSY then
           (let (r, w2) = vfio_dma_unmap K container iova sz w1
            in if r = 0 then
                 (let (rep2, w3) = syscall K req w2
                  in if rv rep2 = 0 then (0, w3)
                     else (- errno w3, error_report ''VFIO_MAP_DMA'' w3))
               else (- errno w2, error_report ''VFIO_MAP_DMA'' w2))
         else (- errno w1, error_report ''VFIO_MAP_DMA'' w1))"

definition container0 :: VFIOContainer where
  "container0 = \<lparr>container_space = 1, container_fd = 5, min_iova = 0,
                  max_iova = - 1, iova_pgsizes = 0x1000, initialized = False,
                  container_error = 0, giommu_list = [], group_list = [3]\<rparr>"

definition is_map :: "hreq \<Rightarrow> bool" where
  "is_map r = (case r of VFIO_IOMMU_MAP_DMA f v i s fl \<Rightarrow> True | _ \<Rightarrow> False)"

text \<open>A host that answers every map with busy and refuses every unmap.\<close>

definition busy_host :: kernel where
  "busy_host tr r =
     (if is_map r then \<lparr>rv = - 1, rerrno = 16, rdata = [], rinfo = []\<rparr>
      else \<lparr>rv = - 1, rerrno = 22, rdata = [], rinfo = []\<rparr>)"

text \<open>A host that answers every map with busy and accepts every unmap.\<close>

definition stale_host :: kernel where
  "stale_host tr r =
     (if is_map r then \<lparr>rv = - 1, rerrno = 16, rdata = [], rinfo = []\<rparr>
      else \<lparr>rv = 0, rerrno = 0, rdata = [], rinfo = []\<rparr>)"

section \<open>EEH: vfio_eeh_container_ok and vfio_eeh_container_op\<close>

text \<open>
  \<^verbatim>\<open>QLIST_EMPTY\<close> is the empty list, \<^verbatim>\<open>QLIST_NEXT(QLIST_FIRST(..))\<close> being non-null a list
  of two or more members.
\<close>

definition vfio_eeh_container_ok :: "VFIOContainer \<Rightarrow> bool" where
  "vfio_eeh_container_ok container =
     (case group_list container of
        [] \<Rightarrow> False
      | g # rest \<Rightarrow> (if rest \<noteq> [] then False else True))"

definition vfio_eeh_container_op ::
  "kernel \<Rightarrow> VFIOContainer \<Rightarrow> 32 word \<Rightarrow> world \<Rightarrow> int \<times> world" where
  "vfio_eeh_container_op K container op w =
     (if \<not> vfio_eeh_container_ok container
      then (- EPERM, error_report ''vfio/eeh: kernel requires a container with exactly one group'' w)
      else
        let (rep, w1) = syscall K (VFIO_EEH_PE_OP (container_fd container) op) w
        in if rv rep < 0
           then (- errno w1, error_report ''vfio/eeh: EEH_PE_OP failed'' w1)
           else (0, w1))"

text \<open>
  A host whose EEH call returns 2, as a state query (\<^verbatim>\<open>VFIO_EEH_PE_GET_STATE\<close>, operation
  4) of a stopped PE does.
\<close>

definition eeh_state_host :: kernel where
  "eeh_state_host tr r = \<lparr>rv = 2, rerrno = 0, rdata = [], rinfo = []\<rparr>"

section \<open>The global lists: address spaces, containers, groups, devices\<close>

text \<open>
  Objects allocated with \<^verbatim>\<open>g_malloc0\<close> live in heaps indexed by their address; the
  \<^verbatim>\<open>QLIST\<close>s \<^verbatim>\<open>vfio_address_spaces\<close>, \<^verbatim>\<open>vfio_group_list\<close>, \<^verbatim>\<open>space->containers\<close>,
  \<^verbatim>\<open>container->group_list\<close> and \<^verbatim>\<open>group->device_list\<close> are lists of addresses, head first.
  An \<^verbatim>\<open>AddressSpace *\<close> is known by its address only.  The lists hold the addresses of
  live objects; where a definition below meets an address that holds no object, a lookup
  does not match it, a walk finds no members under it, and a release leaves the state as
  it is.
\<close>

record VFIOAddressSpace =
  space_as :: nat
  space_containers :: "nat list"

record VFIOGroup =
  group_fd :: int
  groupid :: int
  group_container :: "nat option"
  device_list :: "nat list"

record vfio_state =
  vfio_group_list :: "nat list"
  vfio_address_spaces :: "nat list"
  space_heap :: "nat \<rightharpoonup> VFIOAddressSpace"
  container_heap :: "nat \<rightharpoonup> VFIOContainer"
  group_heap :: "nat \<rightharpoonup> VFIOGroup"
  next_ptr :: nat
  vfio_kvm_device_fd :: int
  reset_registered :: bool

definition g_malloc0 :: "vfio_state \<Rightarrow> nat \<times> vfio_state" where
  "g_malloc0 s = (next_ptr s, s\<lparr>next_ptr := Suc (next_ptr s)\<rparr>)"

definition space_matches :: "vfio_state \<Rightarrow> nat \<Rightarrow> nat \<Rightarrow> bool" where
  "space_matches s asp p =
     (case space_heap s p of Some sp \<Rightarrow> space_as sp = asp | None \<Rightarrow> False)"

definition vfio_get_address_space :: "nat \<Rightarrow> vfio_state \<Rightarrow> nat \<times> vfio_state" where
  "vfio_get_address_space asp s =
     (case find (space_matches s asp) (vfio_address_spaces s) of
        Some p \<Rightarrow> (p, s)
      | None \<Rightarrow>
          (let (p, s1) = g_malloc0 s
           in (p, s1\<lparr>space_heap := (space_heap s1)(p \<mapsto> \<lparr>space_as = asp, space_containers = []\<rparr>),
                     vfio_address_spaces := p # vfio_address_spaces s1\<rparr>)))"

definition vfio_put_address_space :: "nat \<Rightarrow> vfio_state \<Rightarrow> vfio_state" where
  "vfio_put_address_space p s =
     (case space_heap s p of
        None \<Rightarrow> s
      | Some sp \<Rightarrow>
          if space_containers sp = []
          then s\<lparr>vfio_address_spaces := remove1 p (vfio_address_spaces s),
                 space_heap := (space_heap s)(p := None)\<rparr>
          else s)"

definition state0 :: vfio_state where
  "state0 = \<lparr>vfio_group_list = [], vfio_address_spaces = [], space_heap = Map.empty,
             container_heap = Map.empty, group_heap = Map.empty, next_ptr = 1,
             vfio_kvm_device_fd = - 1, reset_registered = False\<rparr>"

section \<open>The reset handler\<close>

text \<open>
  The two hooks of a device's \<^verbatim>\<open>ops\<close> table are supplied by the device model; here they
  are functions of the device they are called on, which stands for the choice of that
  device's table.  They may read and write the fields of any device (a multi-device hot
  reset covers the other devices of its reset domain); they do not relink the lists the
  handler walks.  The log records the hook invocations in order.
\<close>

type_synonym device_heap = "nat \<Rightarrow> VFIODevice"

record VFIODeviceOps =
  vfio_compute_needs_reset :: "nat \<Rightarrow> device_heap \<Rightarrow> device_heap"
  vfio_hot_reset_multi :: "nat \<Rightarrow> device_heap \<Rightarrow> device_heap"

datatype hook_call = ComputeNeedsReset nat | HotResetMulti nat

definition group_devices :: "vfio_state \<Rightarrow> nat \<Rightarrow> nat list" where
  "group_devices s g = (case group_heap s g of Some grp \<Rightarrow> device_list grp | None \<Rightarrow> [])"

fun query_devices ::
  "VFIODeviceOps \<Rightarrow> nat list \<Rightarrow> device_heap \<times> hook_call list \<Rightarrow> device_heap \<times> hook_call list" where
  "query_devices ops [] st = st"
| "query_devices ops (d # ds) (h, lg) =
     query_devices ops ds (vfio_compute_needs_reset ops d h, lg @ [ComputeNeedsReset d])"

fun query_groups ::
  "VFIODeviceOps \<Rightarrow> vfio_state \<Rightarrow> nat list \<Rightarrow> device_heap \<times> hook_call list
     \<Rightarrow> device_heap \<times> hook_call list" where
  "query_groups ops s [] st = st"
| "query_groups ops s (g # gs) st = query_groups ops s gs (query_devices ops (group_devices s g) st)"

fun reset_devices ::
  "VFIODeviceOps \<Rightarrow> nat list \<Rightarrow> device_heap \<times> hook_call list \<Rightarrow> device_heap \<times> hook_call list" where
  "reset_devices ops [] st = st"
| "reset_devices ops (d # ds) (h, lg) =
     (if needs_reset (h d)
      then reset_devices ops ds (vfio_hot_reset_multi ops d h, lg @ [HotResetMulti d])
      else reset_devices ops ds (h, lg))"

fun reset_groups ::
  "VFIODeviceOps \<Rightarrow> vfio_state \<Rightarrow> nat list \<Rightarrow> device_heap \<times> hook_call list
     \<Rightarrow> device_heap \<times> hook_call list" where
  "reset_groups ops s [] st = st"
| "reset_groups ops s (g # gs) st = reset_groups ops s gs (reset_devices ops (group_devices s g) st)"

definition vfio_reset_handler ::
  "VFIODeviceOps \<Rightarrow> vfio_state \<Rightarrow> device_heap \<times> hook_call list \<Rightarrow> device_heap \<times> hook_call list" where
  "vfio_reset_handler ops s st =
     reset_groups ops s (vfio_group_list s) (query_groups ops s (vfio_group_list s) st)"

text \<open>
  The devices the second pass of the reset handler hot-resets, in order, when it walks the
  devices \<open>ds\<close> from the device heap \<open>h\<close>: a device is taken when its \<^verbatim>\<open>needs_reset\<close> flag
  is set at the moment the pass reaches it, after the hot resets of the devices before it.
\<close>

fun reset_order :: "VFIODeviceOps \<Rightarrow> nat list \<Rightarrow> device_heap \<Rightarrow> nat list" where
  "reset_order ops [] h = []"
| "reset_order ops (d # ds) h =
     (if needs_reset (h d) then d # reset_order ops ds (vfio_hot_reset_multi ops d h)
      else reset_order ops ds h)"

definition all_devices :: "vfio_state \<Rightarrow> nat list" where
  "all_devices s = concat (map (group_devices s) (vfio_group_list s))"

text \<open>
  Two groups of one device each.  The query hook flags the device it is called on; the
  hot-reset hook clears the flag of every device, as a reset of a shared reset domain does.
\<close>

definition two_groups :: vfio_state where
  "two_groups = state0\<lparr>vfio_group_list := [20, 21],
     group_heap := [20 \<mapsto> \<lparr>group_fd = 8, groupid = 1, group_container = Some 30, device_list = [10]\<rparr>,
                    21 \<mapsto> \<lparr>group_fd = 9, groupid = 2, group_container = Some 30, device_list = [11]\<rparr>]\<rparr>"

definition domain_ops :: VFIODeviceOps where
  "domain_ops = \<lparr>vfio_compute_needs_reset = (\<lambda>d h. h(d := (h d)\<lparr>needs_reset := True\<rparr>)),
                 vfio_hot_reset_multi = (\<lambda>d h. (\<lambda>x. (h x)\<lparr>needs_reset := False\<rparr>))\<rparr>"

text \<open>The same query hook with a hot-reset hook that clears the flag of its own device only.\<close>

definition single_ops :: VFIODeviceOps where
  "single_ops = \<lparr>vfio_compute_needs_reset = (\<lambda>d h. h(d := (h d)\<lparr>needs_reset := True\<rparr>)),
                 vfio_hot_reset_multi = (\<lambda>d h. h(d := (h d)\<lparr>needs_reset := False\<rparr>))\<rparr>"

definition devices0 :: device_heap where
  "devices0 = (\<lambda>d. dev0)"

section \<open>Direct mapping of a region: vfio_region_mmap\<close>

text \<open>
  A sub-window \<^verbatim>\<open>region->mmaps[i]\<close> holds its offset and size, the mapped pointer
  \<^verbatim>\<open>mmap\<close> (\<open>None\<close> for \<^verbatim>\<open>NULL\<close>) and its \<^verbatim>\<open>MemoryRegion mem\<close>, of which the model keeps
  whether it is currently installed as a subregion of \<^verbatim>\<open>region->mem\<close>.  \<^verbatim>\<open>region_mem\<close>
  says whether \<^verbatim>\<open>region->mem\<close> is non-null.  \<^verbatim>\<open>mmap\<close> answers with the address of
  the mapping or \<^verbatim>\<open>MAP_FAILED\<close>, which is -1.
\<close>

definition MAP_FAILED :: int where "MAP_FAILED = - 1"

definition VFIO_REGION_INFO_FLAG_READ :: "32 word" where "VFIO_REGION_INFO_FLAG_READ = 1"
definition VFIO_REGION_INFO_FLAG_WRITE :: "32 word" where "VFIO_REGION_INFO_FLAG_WRITE = 2"
definition PROT_READ :: "32 word" where "PROT_READ = 1"
definition PROT_WRITE :: "32 word" where "PROT_WRITE = 2"

definition region_prot :: "VFIORegion \<Rightarrow> 32 word" where
  "region_prot region =
     (if region_flags region AND VFIO_REGION_INFO_FLAG_READ \<noteq> 0 then PROT_READ else 0)
     OR (if region_flags region AND VFIO_REGION_INFO_FLAG_WRITE \<noteq> 0 then PROT_WRITE else 0)"

definition mmap_addr :: "VFIOMmap \<Rightarrow> int" where
  "mmap_addr m = (case mmap_ptr m of Some a \<Rightarrow> a | None \<Rightarrow> 0)"

text \<open>
  The inner loop \<^verbatim>\<open>for (i--; i >= 0; i--)\<close>: called with the index of the window that
  failed, it takes the windows below it from the highest down to window 0.
\<close>

fun vfio_region_mmap_rollback ::
  "kernel \<Rightarrow> VFIOMmap list \<Rightarrow> nat \<Rightarrow> world \<Rightarrow> VFIOMmap list \<times> world" where
  "vfio_region_mmap_rollback K ms 0 w = (ms, w)"
| "vfio_region_mmap_rollback K ms (Suc i) w =
     (let m = ms ! i;
          (rep, w1) = syscall K (MUNMAP (mmap_addr m) (mmap_size m)) w
      in vfio_region_mmap_rollback K
           (ms[i := m\<lparr>mmap_ptr := None, mem_installed := False\<rparr>]) i w1)"

function vfio_region_mmap_loop ::
  "kernel \<Rightarrow> VFIORegion \<Rightarrow> nat \<Rightarrow> VFIOMmap list \<Rightarrow> world \<Rightarrow> int \<times> VFIOMmap list \<times> world" where
  "vfio_region_mmap_loop K region i ms w =
     (if i < length ms then
        (let m = ms ! i;
             (rep, w1) = syscall K (MMAP (mmap_size m) (region_prot region)
                                         (dev_fd (vbasedev region))
                                         (fd_offset region + mmap_offset m)) w
         in if rv rep = MAP_FAILED then
              (let ret = - errno w1;
                   (ms2, w2) = vfio_region_mmap_rollback K (ms[i := m\<lparr>mmap_ptr := None\<rparr>]) i w1
               in (ret, ms2, w2))
            else vfio_region_mmap_loop K region (Suc i)
                   (ms[i := m\<lparr>mmap_ptr := Some (rv rep), mem_installed := True\<rparr>]) w1)
      else (0, ms, w))"
  by pat_completeness auto
termination
  by (relation "measure (\<lambda>(K, region, i, ms, w). length ms - i)") auto

definition vfio_region_mmap :: "kernel \<Rightarrow> VFIORegion \<Rightarrow> world \<Rightarrow> int \<times> VFIORegion \<times> world" where
  "vfio_region_mmap K region w =
     (if \<not> region_mem region then (0, region, w)
      else
        let (ret, ms, w') = vfio_region_mmap_loop K region 0 (mmaps region) w
        in (ret, region\<lparr>mmaps := ms\<rparr>, w'))"

text \<open>A window is active when it is mapped and installed.\<close>

definition active :: "VFIOMmap \<Rightarrow> bool" where
  "active m = (mmap_ptr m \<noteq> None \<and> mem_installed m)"

text \<open>
  To say which attempt fails: the request for window \<open>j\<close>, and the history of host calls
  once the first \<open>j\<close> windows have been requested in turn, starting from history \<open>tr\<close>.
\<close>

definition mmap_request :: "VFIORegion \<Rightarrow> nat \<Rightarrow> hreq" where
  "mmap_request region j =
     MMAP (mmap_size (mmaps region ! j)) (region_prot region) (dev_fd (vbasedev region))
          (fd_offset region + mmap_offset (mmaps region ! j))"

fun mmap_history :: "kernel \<Rightarrow> VFIORegion \<Rightarrow> history \<Rightarrow> nat \<Rightarrow> history" where
  "mmap_history K region tr 0 = tr"
| "mmap_history K region tr (Suc j) =
     (let h = mmap_history K region tr j
      in h @ [(mmap_request region j, K h (mmap_request region j))])"

definition mmap_reply :: "kernel \<Rightarrow> VFIORegion \<Rightarrow> history \<Rightarrow> nat \<Rightarrow> hreply" where
  "mmap_reply K region tr j = K (mmap_history K region tr j) (mmap_request region j)"

definition fails_at :: "kernel \<Rightarrow> VFIORegion \<Rightarrow> history \<Rightarrow> nat \<Rightarrow> bool" where
  "fails_at K region tr k =
     ((\<forall>j < k. rv (mmap_reply K region tr j) \<noteq> MAP_FAILED)
      \<and> rv (mmap_reply K region tr k) = MAP_FAILED)"

text \<open>
  A region with two fresh page-sized windows, and a host that maps the window at file
  offset 0 and fails the one at file offset 0x1000 with \<^verbatim>\<open>ENOMEM\<close>.
\<close>

definition region2 :: VFIORegion where
  "region2 = region0\<lparr>mmaps :=
     [\<lparr>mmap_offset = 0, mmap_size = 0x1000, mmap_ptr = None, mem_installed = False\<rparr>,
      \<lparr>mmap_offset = 0x1000, mmap_size = 0x1000, mmap_ptr = None, mem_installed = False\<rparr>]\<rparr>"

definition second_window_fails :: kernel where
  "second_window_fails tr r =
     (case r of
        MMAP len prot f off \<Rightarrow>
          (if off = 0x1000 then \<lparr>rv = - 1, rerrno = 12, rdata = [], rinfo = []\<rparr>
           else \<lparr>rv = 0x7f0000000000, rerrno = 0, rdata = [], rinfo = []\<rparr>)
      | _ \<Rightarrow> \<lparr>rv = 0, rerrno = 0, rdata = [], rinfo = []\<rparr>)"

section \<open>The memory listener: region_add and region_del\<close>

text \<open>
  What the listener reads of a \<^verbatim>\<open>MemoryRegion\<close>: its address, whether it is RAM
  (\<^verbatim>\<open>memory_region_is_ram\<close>), whether it is an IOMMU (\<^verbatim>\<open>memory_region_is_iommu\<close>), its
  \<^verbatim>\<open>readonly\<close> flag and its RAM pointer (\<^verbatim>\<open>memory_region_get_ram_ptr\<close>).  The size of a
  section is an \<^verbatim>\<open>Int128\<close>.
\<close>

record MemoryRegion =
  mr_addr :: nat
  mr_ram :: bool
  mr_iommu :: bool
  mr_readonly :: bool
  mr_ram_ptr :: "64 word"

record MemoryRegionSection =
  mr :: MemoryRegion
  offset_within_region :: "64 word"
  section_size :: "128 word"
  offset_within_address_space :: "64 word"
  section_readonly :: bool

record IOMMUTLBEntry =
  iotlb_iova :: "64 word"
  translated_addr :: "64 word"
  addr_mask :: "64 word"
  perm :: "32 word"

definition IOMMU_NONE :: "32 word" where "IOMMU_NONE = 0"
definition IOMMU_WO :: "32 word" where "IOMMU_WO = 2"
definition IOMMU_RW :: "32 word" where "IOMMU_RW = 3"

text \<open>
  The memory subsystem is not part of the sources here.  What the listener uses of it is
  a parameter: the page size of the target (\<^verbatim>\<open>TARGET_PAGE_BITS\<close>), the translation of an
  address of the system address space (\<^verbatim>\<open>address_space_translate\<close>, giving the region,
  the offset in it and the length that can be reached), the notifications that
  \<^verbatim>\<open>memory_region_iommu_replay\<close> delivers for a guest IOMMU region at a granularity, and
  the sections an address space currently consists of, which \<^verbatim>\<open>memory_listener_register\<close>
  hands to the \<^verbatim>\<open>region_add\<close> of a new listener.
\<close>

record memory_api =
  TARGET_PAGE_BITS :: nat
  address_space_translate :: "64 word \<Rightarrow> 64 word \<Rightarrow> bool \<Rightarrow> MemoryRegion \<times> 64 word \<times> 64 word"
  memory_region_iommu_replay :: "MemoryRegion \<Rightarrow> 64 word \<Rightarrow> IOMMUTLBEntry list"
  address_space_sections :: "nat \<Rightarrow> MemoryRegionSection list"

definition TARGET_PAGE_MASK :: "memory_api \<Rightarrow> 64 word" where
  "TARGET_PAGE_MASK api = NOT (push_bit (TARGET_PAGE_BITS api) 1 - 1)"

definition TARGET_PAGE_ALIGN :: "memory_api \<Rightarrow> 64 word \<Rightarrow> 64 word" where
  "TARGET_PAGE_ALIGN api a =
     (a + push_bit (TARGET_PAGE_BITS api) 1 - 1) AND TARGET_PAGE_MASK api"

text \<open>
  The \<^verbatim>\<open>Int128\<close> helpers of include/qemu/int128.h, which is not part of the sources here,
  as 128-bit two's complement arithmetic.  \<^verbatim>\<open>int128_get64\<close> asserts that the high half
  is zero; \<open>int128_fits64\<close> is that condition.
\<close>

definition int128_make64 :: "64 word \<Rightarrow> 128 word" where "int128_make64 a = ucast a"
definition int128_exts64 :: "64 word \<Rightarrow> 128 word" where "int128_exts64 a = scast a"
definition int128_add :: "128 word \<Rightarrow> 128 word \<Rightarrow> 128 word" where "int128_add a b = a + b"
definition int128_sub :: "128 word \<Rightarrow> 128 word \<Rightarrow> 128 word" where "int128_sub a b = a - b"
definition int128_and :: "128 word \<Rightarrow> 128 word \<Rightarrow> 128 word" where "int128_and a b = a AND b"
definition int128_ge :: "128 word \<Rightarrow> 128 word \<Rightarrow> bool" where "int128_ge a b = (sint b \<le> sint a)"
definition int128_one :: "128 word" where "int128_one = 1"
definition int128_fits64 :: "128 word \<Rightarrow> bool" where "int128_fits64 a = (drop_bit 64 a = 0)"
definition int128_get64 :: "128 word \<Rightarrow> 64 word" where "int128_get64 a = ucast a"

text \<open>
  The state the listener works on: its Container, the host, the reference counts of memory
  regions (\<^verbatim>\<open>memory_region_ref\<close>/\<^verbatim>\<open>memory_region_unref\<close>) and the guest IOMMU regions
  that have a notifier registered.  A \<^verbatim>\<open>VFIOGuestIOMMU\<close> of \<^verbatim>\<open>container->giommu_list\<close> is
  known by the address of its \<^verbatim>\<open>iommu\<close> region.
\<close>

record listener_state =
  ls_container :: VFIOContainer
  ls_host :: world
  ls_mr_refs :: "nat \<Rightarrow> int"
  ls_notifiers :: "nat list"

definition memory_region_ref :: "MemoryRegion \<Rightarrow> listener_state \<Rightarrow> listener_state" where
  "memory_region_ref m st =
     st\<lparr>ls_mr_refs := (ls_mr_refs st)(mr_addr m := ls_mr_refs st (mr_addr m) + 1)\<rparr>"


definition report :: "string \<Rightarrow> listener_state \<Rightarrow> listener_state" where
  "report msg st = st\<lparr>ls_host := error_report msg (ls_host st)\<rparr>"

definition vfio_listener_skipped_section :: "MemoryRegionSection \<Rightarrow> bool" where
  "vfio_listener_skipped_section section =
     ((\<not> mr_ram (mr section) \<and> \<not> mr_iommu (mr section))
      \<or> offset_within_address_space section AND push_bit 63 1 \<noteq> 0)"

definition vfio_iommu_map_notify ::
  "kernel \<Rightarrow> memory_api \<Rightarrow> IOMMUTLBEntry \<Rightarrow> listener_state \<Rightarrow> listener_state" where
  "vfio_iommu_map_notify K api iotlb st =
     (let len = addr_mask iotlb + 1;
          (m, xlat, len') = address_space_translate api (translated_addr iotlb) len
                              (perm iotlb AND IOMMU_WO \<noteq> 0)
      in if \<not> mr_ram m then report ''iommu map to non memory area'' st
         else if len' AND addr_mask iotlb \<noteq> 0
         then report ''iommu has granularity incompatible with target AS'' st
         else if perm iotlb AND IOMMU_RW \<noteq> IOMMU_NONE then
           (let vaddr = mr_ram_ptr m + xlat;
                (ret, w1) = vfio_dma_map K (ls_container st) (iotlb_iova iotlb)
                              (addr_mask iotlb + 1) vaddr
                              (\<not> (perm iotlb AND IOMMU_WO \<noteq> 0) \<or> mr_readonly m) (ls_host st);
                st1 = st\<lparr>ls_host := w1\<rparr>
            in if ret \<noteq> 0 then report ''vfio_dma_map'' st1 else st1)
         else
           (let (ret, w1) = vfio_dma_unmap K (ls_container st) (iotlb_iova iotlb)
                              (addr_mask iotlb + 1) (ls_host st);
                st1 = st\<lparr>ls_host := w1\<rparr>
            in if ret \<noteq> 0 then report ''vfio_dma_unmap'' st1 else st1))"

text \<open>\<^verbatim>\<open>ctz64\<close> counts the trailing zero bits and is 64 for 0.\<close>

definition ctz64 :: "64 word \<Rightarrow> nat" where
  "ctz64 x = length (takeWhile (\<lambda>i. \<not> bit x i) [0..<64])"

definition vfio_container_granularity :: "VFIOContainer \<Rightarrow> 64 word" where
  "vfio_container_granularity c = push_bit (ctz64 (iova_pgsizes c)) 1"

text \<open>
  The label \<^verbatim>\<open>fail\<close> of region_add: during initialisation the first error is stored in the
  Container; afterwards the failure is a hardware error.
\<close>

definition region_add_fail :: "int \<Rightarrow> listener_state \<Rightarrow> (unit, listener_state) outcome" where
  "region_add_fail ret st =
     (if \<not> initialized (ls_container st) then
        (if container_error (ls_container st) = 0
         then Return () (st\<lparr>ls_container := (ls_container st)\<lparr>container_error := ret\<rparr>\<rparr>)
         else Return () st)
      else HwError st)"

definition unaligned :: "memory_api \<Rightarrow> MemoryRegionSection \<Rightarrow> bool" where
  "unaligned api section =
     (offset_within_address_space section AND NOT (TARGET_PAGE_MASK api)
        \<noteq> offset_within_region section AND NOT (TARGET_PAGE_MASK api))"

text \<open>
  The arguments of the trace point of a skipped section are computed with
  \<^verbatim>\<open>int128_get64(int128_sub(section->size, int128_one()))\<close>, whose assertion is part of the
  path.
\<close>

definition vfio_listener_region_add ::
  "kernel \<Rightarrow> memory_api \<Rightarrow> MemoryRegionSection \<Rightarrow> listener_state
     \<Rightarrow> (unit, listener_state) outcome" where
  "vfio_listener_region_add K api section st =
     (if vfio_listener_skipped_section section then
        (if int128_fits64 (int128_sub (section_size section) int128_one)
         then Return () st else AssertFailed st)
      else if unaligned api section then
        Return () (report ''vfio_listener_region_add received unaligned region'' st)
      else
        let iova = TARGET_PAGE_ALIGN api (offset_within_address_space section);
            llend = int128_and
                      (int128_add (int128_make64 (offset_within_address_space section))
                                  (section_size section))
                      (int128_exts64 (TARGET_PAGE_MASK api))
        in if int128_ge (int128_make64 iova) llend then Return () st
           else if \<not> int128_fits64 llend then AssertFailed st
           else
             let end = int128_get64 llend
             in if iova < min_iova (ls_container st) \<or> max_iova (ls_container st) < end - 1
                then region_add_fail (- EFAULT)
                       (report ''vfio: IOMMU container cannot map guest IOVA region'' st)
                else
                  let st1 = memory_region_ref (mr section) st
                  in if mr_iommu (mr section) then
                       (let st2 = st1\<lparr>ls_container := (ls_container st1)
                                        \<lparr>giommu_list := mr_addr (mr section)
                                                         # giommu_list (ls_container st1)\<rparr>,
                                      ls_notifiers := mr_addr (mr section) # ls_notifiers st1\<rparr>
                        in Return ()
                             (foldl (\<lambda>s e. vfio_iommu_map_notify K api e s) st2
                                (memory_region_iommu_replay api (mr section)
                                   (vfio_container_granularity (ls_container st2)))))
                     else
                       (let vaddr = mr_ram_ptr (mr section) + offset_within_region section
                                    + (iova - offset_within_address_space section);
                            (ret, w1) = vfio_dma_map K (ls_container st1) iova (end - iova) vaddr
                                          (section_readonly section) (ls_host st1);
                            st2 = st1\<lparr>ls_host := w1\<rparr>
                        in if ret \<noteq> 0 then region_add_fail ret (report ''vfio_dma_map'' st2)
                           else Return () st2))"





text \<open>
  A target with 4 KiB pages, a RAM region, and sections of it: two pages at address 0, and
  0x20 bytes at address 0x10, which hold no whole page.
\<close>

definition api0 :: memory_api where
  "api0 = \<lparr>TARGET_PAGE_BITS = 12,
           address_space_translate = (\<lambda>a l wr.
              (\<lparr>mr_addr = 40, mr_ram = True, mr_iommu = False, mr_readonly = False,
                mr_ram_ptr = 0x7f0000000000\<rparr>, a, l)),
           memory_region_iommu_replay = (\<lambda>m g. []),
           address_space_sections = (\<lambda>a. [])\<rparr>"






text \<open>A host that accepts every call.\<close>

definition ok_host :: kernel where
  "ok_host tr r = \<lparr>rv = 0, rerrno = 0, rdata = [], rinfo = []\<rparr>"






section \<open>Groups and containers: vfio_connect_container and vfio_get_group\<close>

text \<open>
  The whole state these functions work on: the global lists and heaps, the host, the
  reference counts and notifiers of the memory subsystem, and the Containers whose memory
  listener is registered.
\<close>

record machine =
  m_vfio :: vfio_state
  m_host :: world
  m_mr_refs :: "nat \<Rightarrow> int"
  m_notifiers :: "nat list"
  m_listeners :: "nat list"

definition hostcall :: "kernel \<Rightarrow> hreq \<Rightarrow> machine \<Rightarrow> hreply \<times> machine" where
  "hostcall K r m = (let (rep, w) = syscall K r (m_host m) in (rep, m\<lparr>m_host := w\<rparr>))"

definition mreport :: "string \<Rightarrow> machine \<Rightarrow> machine" where
  "mreport msg m = m\<lparr>m_host := error_report msg (m_host m)\<rparr>"

definition upd_group :: "nat \<Rightarrow> (VFIOGroup \<Rightarrow> VFIOGroup) \<Rightarrow> machine \<Rightarrow> machine" where
  "upd_group p f m =
     (case group_heap (m_vfio m) p of
        None \<Rightarrow> m
      | Some g \<Rightarrow> m\<lparr>m_vfio := (m_vfio m)\<lparr>group_heap := (group_heap (m_vfio m))(p \<mapsto> f g)\<rparr>\<rparr>)"

definition upd_container :: "nat \<Rightarrow> (VFIOContainer \<Rightarrow> VFIOContainer) \<Rightarrow> machine \<Rightarrow> machine" where
  "upd_container p f m =
     (case container_heap (m_vfio m) p of
        None \<Rightarrow> m
      | Some c \<Rightarrow> m\<lparr>m_vfio := (m_vfio m)\<lparr>container_heap := (container_heap (m_vfio m))(p \<mapsto> f c)\<rparr>\<rparr>)"

definition upd_space :: "nat \<Rightarrow> (VFIOAddressSpace \<Rightarrow> VFIOAddressSpace) \<Rightarrow> machine \<Rightarrow> machine" where
  "upd_space p f m =
     (case space_heap (m_vfio m) p of
        None \<Rightarrow> m
      | Some sp \<Rightarrow> m\<lparr>m_vfio := (m_vfio m)\<lparr>space_heap := (space_heap (m_vfio m))(p \<mapsto> f sp)\<rparr>\<rparr>)"

text \<open>Constants of linux/vfio.h.\<close>

definition VFIO_API_VERSION :: int where "VFIO_API_VERSION = 0"
definition VFIO_TYPE1_IOMMU :: int where "VFIO_TYPE1_IOMMU = 1"
definition VFIO_SPAPR_TCE_IOMMU :: int where "VFIO_SPAPR_TCE_IOMMU = 2"
definition VFIO_TYPE1v2_IOMMU :: int where "VFIO_TYPE1v2_IOMMU = 3"
definition VFIO_IOMMU_INFO_PGSIZES :: "64 word" where "VFIO_IOMMU_INFO_PGSIZES = 1"
definition VFIO_GROUP_FLAGS_VIABLE :: "64 word" where "VFIO_GROUP_FLAGS_VIABLE = 1"

text \<open>The \<open>i\<close>-th field of the structure an \<^verbatim>\<open>ioctl\<close> filled in; 0 when the host left it.\<close>

definition info_field :: "hreply \<Rightarrow> nat \<Rightarrow> 64 word" where
  "info_field rep i = (if i < length (rinfo rep) then rinfo rep ! i else 0)"

text \<open>
  The first loop of vfio_connect_container: the Containers of the address space are tried
  in list order, and the first one the group can be set to is taken.
\<close>

fun vfio_connect_existing ::
  "kernel \<Rightarrow> nat \<Rightarrow> int \<Rightarrow> nat list \<Rightarrow> machine \<Rightarrow> (bool, machine) outcome" where
  "vfio_connect_existing K gp gfd [] m = Return False m"
| "vfio_connect_existing K gp gfd (c # cs) m =
     (case container_heap (m_vfio m) c of
        None \<Rightarrow> Segfault m
      | Some ct \<Rightarrow>
          (let (rep, m1) = hostcall K (VFIO_GROUP_SET_CONTAINER gfd (container_fd ct)) m
           in if rv rep = 0
              then Return True
                     (upd_container c (\<lambda>x. x\<lparr>group_list := gp # group_list x\<rparr>)
                        (upd_group gp (\<lambda>g. g\<lparr>group_container := Some c\<rparr>) m1))
              else vfio_connect_existing K gp gfd cs m1))"

text \<open>
  \<^verbatim>\<open>memory_listener_register\<close> calls the listener's region_add on every section of the
  address space; a call that aborts ends the run.
\<close>

fun register_sections ::
  "kernel \<Rightarrow> memory_api \<Rightarrow> MemoryRegionSection list \<Rightarrow> listener_state
     \<Rightarrow> (unit, listener_state) outcome" where
  "register_sections K api [] st = Return () st"
| "register_sections K api (x # xs) st =
     (case vfio_listener_region_add K api x st of
        Return u st1 \<Rightarrow> register_sections K api xs st1
      | HwError st1 \<Rightarrow> HwError st1
      | AssertFailed st1 \<Rightarrow> AssertFailed st1
      | Segfault st1 \<Rightarrow> Segfault st1)"

definition from_listener :: "nat \<Rightarrow> machine \<Rightarrow> listener_state \<Rightarrow> machine" where
  "from_listener cp m st =
     upd_container cp (\<lambda>x. ls_container st)
       (m\<lparr>m_host := ls_host st, m_mr_refs := ls_mr_refs st, m_notifiers := ls_notifiers st\<rparr>)"

definition memory_listener_register ::
  "kernel \<Rightarrow> memory_api \<Rightarrow> nat \<Rightarrow> machine \<Rightarrow> (unit, machine) outcome" where
  "memory_listener_register K api cp m =
     (case container_heap (m_vfio m) cp of
        None \<Rightarrow> Segfault m
      | Some ct \<Rightarrow>
          (case space_heap (m_vfio m) (container_space ct) of
             None \<Rightarrow> Segfault m
           | Some sp \<Rightarrow>
               (let m1 = m\<lparr>m_listeners := cp # m_listeners m\<rparr>
                in case register_sections K api (address_space_sections api (space_as sp))
                          \<lparr>ls_container = ct, ls_host = m_host m1,
                           ls_mr_refs = m_mr_refs m1, ls_notifiers = m_notifiers m1\<rparr> of
                     Return u st \<Rightarrow> Return () (from_listener cp m1 st)
                   | HwError st \<Rightarrow> HwError (from_listener cp m1 st)
                   | AssertFailed st \<Rightarrow> AssertFailed (from_listener cp m1 st)
                   | Segfault st \<Rightarrow> Segfault (from_listener cp m1 st))))"

definition vfio_listener_release :: "nat \<Rightarrow> machine \<Rightarrow> machine" where
  "vfio_listener_release cp m = m\<lparr>m_listeners := remove1 cp (m_listeners m)\<rparr>"

text \<open>The exit labels of vfio_connect_container, each falling through to the next.\<close>

definition put_space_exit :: "int \<Rightarrow> nat \<Rightarrow> machine \<Rightarrow> int \<times> machine" where
  "put_space_exit ret space m = (ret, m\<lparr>m_vfio := vfio_put_address_space space (m_vfio m)\<rparr>)"

definition close_fd_exit :: "kernel \<Rightarrow> int \<Rightarrow> int \<Rightarrow> nat \<Rightarrow> machine \<Rightarrow> int \<times> machine" where
  "close_fd_exit K ret fd space m =
     (let (rep, m1) = hostcall K (CLOSE fd) m in put_space_exit ret space m1)"

definition free_container_exit ::
  "kernel \<Rightarrow> int \<Rightarrow> nat \<Rightarrow> int \<Rightarrow> nat \<Rightarrow> machine \<Rightarrow> int \<times> machine" where
  "free_container_exit K ret cp fd space m =
     close_fd_exit K ret fd space
       (m\<lparr>m_vfio := (m_vfio m)\<lparr>container_heap := (container_heap (m_vfio m))(cp := None)\<rparr>\<rparr>)"

definition listener_release_exit ::
  "kernel \<Rightarrow> int \<Rightarrow> nat \<Rightarrow> int \<Rightarrow> nat \<Rightarrow> machine \<Rightarrow> int \<times> machine" where
  "listener_release_exit K ret cp fd space m =
     free_container_exit K ret cp fd space (vfio_listener_release cp m)"

text \<open>
  The choice of the IOMMU model for a new Container.  The result is \<open>None\<close> when the
  Container is set up and \<open>Some ret\<close> when the code jumps to \<^verbatim>\<open>free_container_exit\<close>.
\<close>

definition vfio_setup_iommu ::
  "kernel \<Rightarrow> int \<Rightarrow> nat \<Rightarrow> int \<Rightarrow> machine \<Rightarrow> int option \<times> machine" where
  "vfio_setup_iommu K gfd cp fd m =
     (let (t1, m1) = hostcall K (VFIO_CHECK_EXTENSION fd VFIO_TYPE1_IOMMU) m;
          (type1, m2) = (if rv t1 \<noteq> 0 then (True, m1)
                         else (let (t2, mx) = hostcall K (VFIO_CHECK_EXTENSION fd VFIO_TYPE1v2_IOMMU) m1
                               in (rv t2 \<noteq> 0, mx)))
      in if type1 then
           (let (t3, m3) = hostcall K (VFIO_CHECK_EXTENSION fd VFIO_TYPE1v2_IOMMU) m2;
                v2 = (rv t3 \<noteq> 0);
                (r1, m4) = hostcall K (VFIO_GROUP_SET_CONTAINER gfd fd) m3
            in if rv r1 \<noteq> 0
               then (let m5 = mreport ''vfio: failed to set group container'' m4
                     in (Some (- errno (m_host m5)), m5))
               else
                 (let (r2, m5) = hostcall K (VFIO_SET_IOMMU fd
                                    (if v2 then VFIO_TYPE1v2_IOMMU else VFIO_TYPE1_IOMMU)) m4
                  in if rv r2 \<noteq> 0
                     then (let m6 = mreport ''vfio: failed to set iommu for container'' m5
                           in (Some (- errno (m_host m6)), m6))
                     else
                       (let m6 = upd_container cp
                                   (\<lambda>x. x\<lparr>min_iova := 0, max_iova := - 1, iova_pgsizes := 0x1000\<rparr>) m5;
                            (r3, m7) = hostcall K (VFIO_IOMMU_GET_INFO fd) m6
                        in if rv r3 = 0 \<and> info_field r3 0 AND VFIO_IOMMU_INFO_PGSIZES \<noteq> 0
                           then (None, upd_container cp (\<lambda>x. x\<lparr>iova_pgsizes := info_field r3 1\<rparr>) m7)
                           else (None, m7))))
         else
           (let (t4, m3) = hostcall K (VFIO_CHECK_EXTENSION fd VFIO_SPAPR_TCE_IOMMU) m2
            in if rv t4 \<noteq> 0 then
                 (let (r1, m4) = hostcall K (VFIO_GROUP_SET_CONTAINER gfd fd) m3
                  in if rv r1 \<noteq> 0
                     then (let m5 = mreport ''vfio: failed to set group container'' m4
                           in (Some (- errno (m_host m5)), m5))
                     else
                       (let (r2, m5) = hostcall K (VFIO_SET_IOMMU fd VFIO_SPAPR_TCE_IOMMU) m4
                        in if rv r2 \<noteq> 0
                           then (let m6 = mreport ''vfio: failed to set iommu for container'' m5
                                 in (Some (- errno (m_host m6)), m6))
                           else
                             (let (r3, m6) = hostcall K (VFIO_IOMMU_ENABLE fd) m5
                              in if rv r3 \<noteq> 0
                                 then (let m7 = mreport ''vfio: failed to enable container'' m6
                                       in (Some (- errno (m_host m7)), m7))
                                 else
                                   (let (r4, m7) = hostcall K (VFIO_IOMMU_SPAPR_TCE_GET_INFO fd) m6
                                    in if rv r4 \<noteq> 0
                                       then (let m8 = mreport
                                                 ''vfio: VFIO_IOMMU_SPAPR_TCE_GET_INFO failed'' m7
                                             in (Some (- errno (m_host m8)), m8))
                                       else (None,
                                             upd_container cp
                                               (\<lambda>x. x\<lparr>min_iova := info_field r4 0,
                                                       max_iova := info_field r4 0 + info_field r4 1 - 1,
                                                       iova_pgsizes := 0x1000\<rparr>) m7)))))
               else (Some (- EINVAL), mreport ''vfio: No available IOMMU models'' m3)))"

text \<open>
  The end of vfio_connect_container, once the IOMMU model is set: the listener is
  registered, a stored error undoes everything, and otherwise the Container is linked to
  its address space and the group to the Container.
\<close>

definition vfio_connect_finish ::
  "kernel \<Rightarrow> memory_api \<Rightarrow> nat \<Rightarrow> nat \<Rightarrow> int \<Rightarrow> nat \<Rightarrow> machine \<Rightarrow> (int, machine) outcome" where
  "vfio_connect_finish K api gp cp fd space m =
     (case memory_listener_register K api cp m of
        HwError x \<Rightarrow> HwError x
      | AssertFailed x \<Rightarrow> AssertFailed x
      | Segfault x \<Rightarrow> Segfault x
      | Return u m1 \<Rightarrow>
          (case container_heap (m_vfio m1) cp of
             None \<Rightarrow> Segfault m1
           | Some ct \<Rightarrow>
               if container_error ct \<noteq> 0 then
                 (let (r, m2) = listener_release_exit K (container_error ct) cp fd space
                                  (mreport ''vfio: memory listener initialization failed for container'' m1)
                  in Return r m2)
               else
                 Return 0
                   (upd_container cp (\<lambda>x. x\<lparr>group_list := gp # group_list x\<rparr>)
                     (upd_group gp (\<lambda>g. g\<lparr>group_container := Some cp\<rparr>)
                       (upd_space space (\<lambda>x. x\<lparr>space_containers := cp # space_containers x\<rparr>)
                         (upd_container cp (\<lambda>x. x\<lparr>initialized := True, group_list := []\<rparr>) m1))))))"

text \<open>The middle: a new host connection is opened and a Container allocated for it.\<close>

definition vfio_connect_new ::
  "kernel \<Rightarrow> memory_api \<Rightarrow> nat \<Rightarrow> int \<Rightarrow> nat \<Rightarrow> machine \<Rightarrow> (int, machine) outcome" where
  "vfio_connect_new K api gp gfd space m =
     (let (o1, m1) = hostcall K OPEN_VFIO m;
          fd = rv o1
      in if fd < 0 then
           (let m2 = mreport ''vfio: failed to open /dev/vfio/vfio'' m1;
                (ret, m3) = put_space_exit (- errno (m_host m2)) space m2
            in Return ret m3)
         else
           (let (a1, m2) = hostcall K (VFIO_GET_API_VERSION fd) m1
            in if rv a1 \<noteq> VFIO_API_VERSION then
                 (let (ret, m3) = close_fd_exit K (- EINVAL) fd space
                                    (mreport ''vfio: supported vfio version'' m2)
                  in Return ret m3)
               else
                 (let (cp, v3) = g_malloc0 (m_vfio m2);
                      m3 = m2\<lparr>m_vfio := v3\<lparr>container_heap := (container_heap v3)(cp \<mapsto>
                              \<lparr>container_space = space, container_fd = fd, min_iova = 0,
                               max_iova = 0, iova_pgsizes = 0, initialized = False,
                               container_error = 0, giommu_list = [], group_list = []\<rparr>)\<rparr>\<rparr>;
                      (failed, m4) = vfio_setup_iommu K gfd cp fd m3
                  in case failed of
                       Some ret \<Rightarrow>
                         (let (r, m5) = free_container_exit K ret cp fd space m4 in Return r m5)
                     | None \<Rightarrow> vfio_connect_finish K api gp cp fd space m4)))"

definition vfio_connect_container ::
  "kernel \<Rightarrow> memory_api \<Rightarrow> nat \<Rightarrow> nat \<Rightarrow> machine \<Rightarrow> (int, machine) outcome" where
  "vfio_connect_container K api gp asp m =
     (case group_heap (m_vfio m) gp of
        None \<Rightarrow> Segfault m
      | Some grp \<Rightarrow>
          (let (space, v1) = vfio_get_address_space asp (m_vfio m);
               m1 = m\<lparr>m_vfio := v1\<rparr>
           in case space_heap v1 space of
                None \<Rightarrow> Segfault m1
              | Some sp \<Rightarrow>
                  (case vfio_connect_existing K gp (group_fd grp) (space_containers sp) m1 of
                     HwError x \<Rightarrow> HwError x
                   | AssertFailed x \<Rightarrow> AssertFailed x
                   | Segfault x \<Rightarrow> Segfault x
                   | Return found m2 \<Rightarrow>
                       if found then Return 0 m2
                       else vfio_connect_new K api gp (group_fd grp) space m2)))"

text \<open>
  \<^verbatim>\<open>vfio_kvm_device_add_group\<close>.  \<open>kvm\<close> says whether the build has \<^verbatim>\<open>CONFIG_KVM\<close> and
  \<^verbatim>\<open>kvm_enabled()\<close> holds.
\<close>

definition vfio_kvm_device_add_group :: "kernel \<Rightarrow> bool \<Rightarrow> int \<Rightarrow> machine \<Rightarrow> machine" where
  "vfio_kvm_device_add_group K kvm gfd m =
     (if \<not> kvm then m
      else
        let (created, m1) =
              (if vfio_kvm_device_fd (m_vfio m) < 0 then
                 (let (rep, mx) = hostcall K KVM_CREATE_DEVICE_VFIO m
                  in if rv rep \<noteq> 0
                     then (False, mreport ''Failed to create KVM VFIO device'' mx)
                     else (True, mx\<lparr>m_vfio := (m_vfio mx)
                                    \<lparr>vfio_kvm_device_fd := sint (ucast (info_field rep 0) :: 32 word)\<rparr>\<rparr>))
               else (True, m))
        in if \<not> created then m1
           else
             let (rep, m2) = hostcall K (KVM_DEV_VFIO_GROUP_ADD
                                           (vfio_kvm_device_fd (m_vfio m1)) gfd) m1
             in if rv rep \<noteq> 0 then mreport ''Failed to add group to KVM VFIO device'' m2
                else m2)"

definition group_matches :: "vfio_state \<Rightarrow> int \<Rightarrow> nat \<Rightarrow> bool" where
  "group_matches v gid p =
     (case group_heap v p of Some g \<Rightarrow> groupid g = gid | None \<Rightarrow> False)"

text \<open>
  The address space a registered group is used in, \<^verbatim>\<open>group->container->space->as\<close>;
  \<open>None\<close> when one of the three pointers does not lead to an object.
\<close>

definition group_address_space :: "vfio_state \<Rightarrow> nat \<Rightarrow> nat option" where
  "group_address_space v p =
     (case group_heap v p of
        None \<Rightarrow> None
      | Some g \<Rightarrow>
          (case group_container g of
             None \<Rightarrow> None
           | Some c \<Rightarrow>
               (case container_heap v c of
                  None \<Rightarrow> None
                | Some ct \<Rightarrow>
                    (case space_heap v (container_space ct) of
                       None \<Rightarrow> None
                     | Some sp \<Rightarrow> Some (space_as sp)))))"

definition free_group :: "nat \<Rightarrow> machine \<Rightarrow> machine" where
  "free_group gp m = m\<lparr>m_vfio := (m_vfio m)\<lparr>group_heap := (group_heap (m_vfio m))(gp := None)\<rparr>\<rparr>"

definition group_close_fd_exit :: "kernel \<Rightarrow> int \<Rightarrow> nat \<Rightarrow> machine \<Rightarrow> machine" where
  "group_close_fd_exit K gfd gp m =
     (let (rep, m1) = hostcall K (CLOSE gfd) m in free_group gp m1)"

definition vfio_get_group ::
  "kernel \<Rightarrow> memory_api \<Rightarrow> bool \<Rightarrow> int \<Rightarrow> nat \<Rightarrow> machine \<Rightarrow> (nat option, machine) outcome" where
  "vfio_get_group K api kvm gid asp m =
     (case find (group_matches (m_vfio m) gid) (vfio_group_list (m_vfio m)) of
        Some p \<Rightarrow>
          (case group_address_space (m_vfio m) p of
             None \<Rightarrow> Segfault m
           | Some a \<Rightarrow>
               if a = asp then Return (Some p) m
               else Return None (mreport ''vfio: group used in multiple address spaces'' m))
      | None \<Rightarrow>
          (let (gp, v1) = g_malloc0 (m_vfio m);
               (o1, m1) = hostcall K (OPEN_GROUP gid) (m\<lparr>m_vfio := v1\<rparr>);
               gfd = rv o1;
               m2 = m1\<lparr>m_vfio := (m_vfio m1)\<lparr>group_heap := (group_heap (m_vfio m1))(gp \<mapsto>
                       \<lparr>group_fd = gfd, groupid = 0, group_container = None, device_list = []\<rparr>)\<rparr>\<rparr>
           in if gfd < 0 then
                Return None (free_group gp (mreport ''vfio: error opening group'' m2))
              else
                (let (s1, m3) = hostcall K (VFIO_GROUP_GET_STATUS gfd) m2
                 in if rv s1 \<noteq> 0 then
                      Return None (group_close_fd_exit K gfd gp
                                     (mreport ''vfio: error getting group status'' m3))
                    else if info_field s1 0 AND VFIO_GROUP_FLAGS_VIABLE = 0 then
                      Return None (group_close_fd_exit K gfd gp
                                     (mreport ''vfio: error, group is not viable'' m3))
                    else
                      (let m4 = upd_group gp (\<lambda>g. g\<lparr>groupid := gid, device_list := []\<rparr>) m3
                       in case vfio_connect_container K api gp asp m4 of
                            HwError x \<Rightarrow> HwError x
                          | AssertFailed x \<Rightarrow> AssertFailed x
                          | Segfault x \<Rightarrow> Segfault x
                          | Return ret m5 \<Rightarrow>
                              if ret \<noteq> 0 then
                                Return None (group_close_fd_exit K gfd gp
                                               (mreport ''vfio: failed to setup container for group'' m5))
                              else
                                (let m6 = (if vfio_group_list (m_vfio m5) = []
                                           then m5\<lparr>m_vfio := (m_vfio m5)\<lparr>reset_registered := True\<rparr>\<rparr>
                                           else m5);
                                     m7 = m6\<lparr>m_vfio := (m_vfio m6)
                                             \<lparr>vfio_group_list := gp # vfio_group_list (m_vfio m6)\<rparr>\<rparr>
                                 in Return (Some gp) (vfio_kvm_device_add_group K kvm gfd m7))))))"

text \<open>
  A machine with one registered group, number 26, at address 20; the group is bound to the
  Container at 30, which serves the address space 100 through the registry entry at 1.
\<close>

definition machine1 :: machine where
  "machine1 =
     \<lparr>m_vfio = state0\<lparr>vfio_group_list := [20], vfio_address_spaces := [1],
                       space_heap := [1 \<mapsto> \<lparr>space_as = 100, space_containers = [30]\<rparr>],
                       container_heap := [30 \<mapsto> container0\<lparr>initialized := True, group_list := [20]\<rparr>],
                       group_heap := [20 \<mapsto> \<lparr>group_fd = 8, groupid = 26,
                                              group_container = Some 30, device_list = [10]\<rparr>],
                       next_ptr := 31\<rparr>,
      m_host = world0, m_mr_refs = (\<lambda>a. 1), m_notifiers = [], m_listeners = [30]\<rparr>"

section \<open>Properties of trapped access\<close>

lemma vfio_region_read_short:
  assumes "rv (K (trace w) (PREAD (dev_fd (vbasedev region)) sz (fd_offset region + addr)))
           \<noteq> uint sz"
  shows "\<exists>w'. vfio_region_read K region addr sz w = Return (- 1) w'
              \<and> eoi_calls w' = eoi_calls w"
  using assms by (simp add: vfio_region_read_def syscall_def Let_def error_report_def)

text \<open>
  C9.  A trapped read of 1, 2 or 4 bytes whose positioned read of the device descriptor
  completes fewer bytes than requested (an error return of -1 included) returns the
  all-ones value \<^verbatim>\<open>(uint64_t)-1\<close> to the guest, not device data.
\<close>

theorem vfio_region_read_short_all_ones:
  assumes "sz = 1 \<or> sz = 2 \<or> sz = 4"
    and "rv (K (trace w) (PREAD (dev_fd (vbasedev region)) sz (fd_offset region + addr)))
         < uint sz"
  shows "\<exists>w'. vfio_region_read K region addr sz w = Return 0xFFFFFFFFFFFFFFFF w'"
proof -
  have "rv (K (trace w) (PREAD (dev_fd (vbasedev region)) sz (fd_offset region + addr)))
        \<noteq> uint sz"
    using assms(2) by simp
  then obtain w' where "vfio_region_read K region addr sz w = Return (- 1) w'"
    using vfio_region_read_short [of K w region sz addr] by blast
  then show ?thesis
    by auto
qed

theorem vfio_region_read_short_all_ones_witness:
  "((4 :: 32 word) = 1 \<or> (4 :: 32 word) = 2 \<or> (4 :: 32 word) = 4)
   \<and> rv (short_host (trace world0) (PREAD (dev_fd (vbasedev region0)) 4 (fd_offset region0 + 0)))
       < uint (4 :: 32 word)
   \<and> (\<exists>w'. vfio_region_read short_host region0 0 4 world0 = Return 0xFFFFFFFFFFFFFFFF w')"
proof -
  have h1: "(4 :: 32 word) = 1 \<or> (4 :: 32 word) = 2 \<or> (4 :: 32 word) = 4"
    by simp
  have h2: "rv (short_host (trace world0)
                 (PREAD (dev_fd (vbasedev region0)) 4 (fd_offset region0 + 0)))
            < uint (4 :: 32 word)"
    by (simp add: short_host_def)
  from vfio_region_read_short_all_ones [of 4 short_host world0 region0 0, OF h1 h2] h1 h2
  show ?thesis
    by blast
qed

lemma vfio_region_write_eoi_once:
  assumes "sz = 1 \<or> sz = 2 \<or> sz = 4"
  shows "\<exists>w'. vfio_region_write K region addr data sz w = Return () w'
              \<and> eoi_calls w' = eoi_calls w @ [dev_name (vbasedev region)]"
  using assms
  by (auto simp add: vfio_region_write_def syscall_def Let_def error_report_def vfio_eoi_def)

lemma vfio_region_read_complete_eoi_once:
  assumes "sz = 1 \<or> sz = 2 \<or> sz = 4"
    and "rv (K (trace w) (PREAD (dev_fd (vbasedev region)) sz (fd_offset region + addr)))
         = uint sz"
  shows "\<exists>v w'. vfio_region_read K region addr sz w = Return v w'
              \<and> eoi_calls w' = eoi_calls w @ [dev_name (vbasedev region)]"
  using assms
  by (auto simp add: vfio_region_read_def syscall_def Let_def vfio_eoi_def)

text \<open>
  C2.  Every trapped access should end with one call of the end-of-interrupt hook.  The
  write path does so whether or not \<^verbatim>\<open>pwrite\<close> transfers all bytes, and the read path does
  so when \<^verbatim>\<open>pread\<close> transfers all bytes.  A read whose \<^verbatim>\<open>pread\<close> comes back short leaves
  through the early \<^verbatim>\<open>return (uint64_t)-1\<close> and never reaches the hook: run on a 4-byte read
  for which the host delivers 2 bytes, the hook is not called at all, while the same short
  transfer on the write path calls it once.
\<close>

theorem vfio_region_read_short_skips_eoi:
  "vfio_region_read short_host region0 0 4 world0
     = Return 0xFFFFFFFFFFFFFFFF
         \<lparr>trace = [(PREAD 7 4 0, \<lparr>rv = 2, rerrno = 0, rdata = [0x34, 0x12], rinfo = []\<rparr>)],
          errno = 0, reported = [''vfio_region_read failed''], eoi_calls = []\<rparr>
   \<and> (\<exists>w'. vfio_region_write short_host region0 0 0x1234 4 world0 = Return () w'
            \<and> eoi_calls w' = [''0000:01:00.0''])"
  by (simp add: vfio_region_read_def vfio_region_write_def syscall_def short_host_def
      region0_def dev0_def world0_def error_report_def vfio_eoi_def Let_def)

section \<open>Properties of the DMA map engine\<close>

text \<open>
  C1, as the code has it.  When the first map attempt fails with \<^verbatim>\<open>EBUSY\<close>, the engine
  issues exactly one unmap of the same (iova, size) range; exactly one retry of the same
  map follows when that unmap succeeds, and none when it fails.  The call returns 0 only
  when the retry succeeds and the negated \<^verbatim>\<open>errno\<close> (a negative value) otherwise, after
  \<^verbatim>\<open>error_report\<close>; no further host call is made.  A first attempt that fails with any
  other error is the only host call of the operation.
\<close>

theorem vfio_dma_map_busy_retry:
  assumes "req = map_request c iova sz vaddr ro"
    and "unreq = VFIO_IOMMU_UNMAP_DMA (container_fd c) iova sz"
    and "rep1 = K (trace w) req"
    and "repu = K (trace w @ [(req, rep1)]) unreq"
    and "rep2 = K (trace w @ [(req, rep1), (unreq, repu)]) req"
    and "ioctl_status rep1" and "ioctl_status repu" and "ioctl_status rep2"
    and "rv rep1 \<noteq> 0"
    and "vfio_dma_map K c iova sz vaddr ro w = (r, w')"
  shows "trace w' = trace w @
           (if rerrno rep1 = EBUSY
            then (if rv repu = 0 then [(req, rep1), (unreq, repu), (req, rep2)]
                  else [(req, rep1), (unreq, repu)])
            else [(req, rep1)])
       \<and> r = (if rerrno rep1 = EBUSY \<and> rv repu = 0 \<and> rv rep2 = 0 then 0 else - errno w')
       \<and> (r < 0) = (\<not> (rerrno rep1 = EBUSY \<and> rv repu = 0 \<and> rv rep2 = 0))
       \<and> reported w' = reported w @
           (if rerrno rep1 = EBUSY
            then (if rv repu = 0 then (if rv rep2 = 0 then [] else [''VFIO_MAP_DMA''])
                  else [''VFIO_UNMAP_DMA'', ''VFIO_MAP_DMA''])
            else [''VFIO_MAP_DMA''])"
  using assms
  by (auto simp add: vfio_dma_map_def vfio_dma_unmap_def syscall_def Let_def
      error_report_def EBUSY_def ioctl_status_def split: if_splits)

theorem vfio_dma_map_busy_retry_witness:
  "map fst (trace (snd (vfio_dma_map stale_host container0 0 0x1000 0x7f0000000000 False world0)))
     = [VFIO_IOMMU_MAP_DMA 5 0x7f0000000000 0 0x1000 3,
        VFIO_IOMMU_UNMAP_DMA 5 0 0x1000,
        VFIO_IOMMU_MAP_DMA 5 0x7f0000000000 0 0x1000 3]
   \<and> fst (vfio_dma_map stale_host container0 0 0x1000 0x7f0000000000 False world0) = - 16"
proof -
  obtain r w' where res:
    "vfio_dma_map stale_host container0 0 0x1000 0x7f0000000000 False world0 = (r, w')"
    by (cases "vfio_dma_map stale_host container0 0 0x1000 0x7f0000000000 False world0")
  have busy: "is_map (map_request container0 0 0x1000 0x7f0000000000 False)"
    by (simp add: map_request_def is_map_def)
  have "trace w' = trace world0 @
           [(map_request container0 0 0x1000 0x7f0000000000 False,
               \<lparr>rv = - 1, rerrno = 16, rdata = [], rinfo = []\<rparr>),
            (VFIO_IOMMU_UNMAP_DMA (container_fd container0) 0 0x1000,
               \<lparr>rv = 0, rerrno = 0, rdata = [], rinfo = []\<rparr>),
            (map_request container0 0 0x1000 0x7f0000000000 False,
               \<lparr>rv = - 1, rerrno = 16, rdata = [], rinfo = []\<rparr>)]
        \<and> r = - errno w'"
    using vfio_dma_map_busy_retry [OF refl refl refl refl refl _ _ _ _ res] busy
    by (simp add: stale_host_def ioctl_status_def is_map_def EBUSY_def)
  moreover have "errno w' = 16"
    using res busy
    by (auto simp add: vfio_dma_map_def vfio_dma_unmap_def syscall_def Let_def
        error_report_def EBUSY_def stale_host_def is_map_def split: if_splits)
  ultimately show ?thesis
    using res
    by (simp add: map_request_def container0_def world0_def
        VFIO_DMA_MAP_FLAG_READ_def VFIO_DMA_MAP_FLAG_WRITE_def)
qed

text \<open>
  The claim's "exactly one retry" after every busy failure does not hold when the
  intervening unmap fails: on a host that answers the map with \<^verbatim>\<open>EBUSY\<close> and refuses the
  unmap, the first attempt is the only map request of the call.
\<close>

theorem vfio_dma_map_busy_unmap_fails_no_retry:
  "rv (busy_host (trace world0) (map_request container0 0 0x1000 0x7f0000000000 False)) = - 1
   \<and> rerrno (busy_host (trace world0) (map_request container0 0 0x1000 0x7f0000000000 False))
       = EBUSY
   \<and> map fst (trace (snd (vfio_dma_map busy_host container0 0 0x1000 0x7f0000000000 False world0)))
       = [VFIO_IOMMU_MAP_DMA 5 0x7f0000000000 0 0x1000 3, VFIO_IOMMU_UNMAP_DMA 5 0 0x1000]
   \<and> fst (vfio_dma_map busy_host container0 0 0x1000 0x7f0000000000 False world0) = - 22"
  by (simp add: vfio_dma_map_def vfio_dma_unmap_def syscall_def Let_def error_report_def
      EBUSY_def busy_host_def is_map_def map_request_def container0_def world0_def
      VFIO_DMA_MAP_FLAG_READ_def VFIO_DMA_MAP_FLAG_WRITE_def)

section \<open>Properties of the EEH operation\<close>

lemma vfio_eeh_container_ok_iff:
  "vfio_eeh_container_ok c = (length (group_list c) = 1)"
  by (cases "group_list c") (auto simp add: vfio_eeh_container_ok_def)

text \<open>
  What the operation does, for every Container, host and state: without exactly one
  Group it returns \<^verbatim>\<open>-EPERM\<close> and makes no host call; with exactly one Group it makes one
  \<^verbatim>\<open>VFIO_EEH_PE_OP\<close> call and returns the negated \<^verbatim>\<open>errno\<close> when the call's return value is
  negative and 0 for every other return value.
\<close>

lemma vfio_eeh_container_op_status:
  assumes "vfio_eeh_container_op K c op w = (r, w')"
    and "rep = K (trace w) (VFIO_EEH_PE_OP (container_fd c) op)"
  shows "if length (group_list c) = 1
         then trace w' = trace w @ [(VFIO_EEH_PE_OP (container_fd c) op, rep)]
              \<and> r = (if rv rep < 0 then - rerrno rep else 0)
         else trace w' = trace w \<and> r = - EPERM"
  using assms
  by (auto simp add: vfio_eeh_container_op_def vfio_eeh_container_ok_iff syscall_def
      Let_def error_report_def split: if_splits)

text \<open>
  C4.  The permission check is as the property says: on a Container with two bound Groups
  the operation returns \<^verbatim>\<open>-EPERM\<close> and makes no host call.  The forwarding of the host
  call's result is not: on a Container with exactly one bound Group, a state query
  (\<^verbatim>\<open>VFIO_EEH_PE_GET_STATE\<close>, operation 4) that the host answers with the state 2 makes the
  one host call and returns 0; the result of the call, stored in \<^verbatim>\<open>ret\<close>, is dropped by
  the final \<^verbatim>\<open>return 0\<close>.
\<close>

theorem vfio_eeh_container_op_drops_positive_result:
  "length (group_list container0) = 1
   \<and> rv (eeh_state_host (trace world0) (VFIO_EEH_PE_OP (container_fd container0) 4)) = 2
   \<and> trace (snd (vfio_eeh_container_op eeh_state_host container0 4 world0))
       = [(VFIO_EEH_PE_OP 5 4, \<lparr>rv = 2, rerrno = 0, rdata = [], rinfo = []\<rparr>)]
   \<and> fst (vfio_eeh_container_op eeh_state_host container0 4 world0) = 0
   \<and> trace (snd (vfio_eeh_container_op eeh_state_host (container0\<lparr>group_list := [3, 4]\<rparr>)
                  4 world0)) = []
   \<and> fst (vfio_eeh_container_op eeh_state_host (container0\<lparr>group_list := [3, 4]\<rparr>)
             4 world0) = - EPERM"
  by (simp add: vfio_eeh_container_op_def vfio_eeh_container_ok_def syscall_def Let_def
      eeh_state_host_def container0_def world0_def error_report_def)

section \<open>Properties of the address-space registry\<close>

lemma find_space_matches_unchanged:
  "find (space_matches s asp) xs = Some p \<Longrightarrow> p \<in> set xs \<and> space_matches s asp p"
  by (induction xs) (auto split: if_splits)

text \<open>
  C7.  \<^verbatim>\<open>vfio_get_address_space\<close> returns an entry of the registry for the given address
  space without changing anything when there is one, and otherwise allocates an entry with
  an empty container list and inserts it at the head; a second call with the same address
  space returns the same entry and changes nothing.  \<^verbatim>\<open>vfio_put_address_space\<close> unlinks
  and frees the entry when its container list is empty and does nothing otherwise.
\<close>

theorem vfio_address_space_get_put:
  assumes "vfio_get_address_space asp s = (p, s')"
    and "space_heap t q = Some sp"
  shows "((\<exists>x \<in> set (vfio_address_spaces s). space_matches s asp x)
            \<longrightarrow> s' = s \<and> p \<in> set (vfio_address_spaces s) \<and> space_matches s asp p)
       \<and> (\<not> (\<exists>x \<in> set (vfio_address_spaces s). space_matches s asp x)
            \<longrightarrow> p = next_ptr s
                \<and> vfio_address_spaces s' = p # vfio_address_spaces s
                \<and> space_heap s' = (space_heap s)(p \<mapsto> \<lparr>space_as = asp, space_containers = []\<rparr>))
       \<and> vfio_get_address_space asp s' = (p, s')
       \<and> vfio_put_address_space q t =
           (if space_containers sp = []
            then t\<lparr>vfio_address_spaces := remove1 q (vfio_address_spaces t),
                   space_heap := (space_heap t)(q := None)\<rparr>
            else t)
       \<and> (space_heap (vfio_put_address_space q t) q = None) = (space_containers sp = [])"
proof (cases "find (space_matches s asp) (vfio_address_spaces s)")
  case None
  then have no: "\<not> (\<exists>x \<in> set (vfio_address_spaces s). space_matches s asp x)"
    by (simp add: find_None_iff)
  from None assms(1) have p: "p = next_ptr s"
    and s': "s' = s\<lparr>next_ptr := Suc (next_ptr s),
                    space_heap := (space_heap s)(next_ptr s \<mapsto> \<lparr>space_as = asp, space_containers = []\<rparr>),
                    vfio_address_spaces := next_ptr s # vfio_address_spaces s\<rparr>"
    by (auto simp add: vfio_get_address_space_def g_malloc0_def)
  have again: "vfio_get_address_space asp s' = (p, s')"
    by (simp add: vfio_get_address_space_def s' p space_matches_def)
  show ?thesis
    using no again assms(2) p s'
    by (simp add: vfio_put_address_space_def)
next
  case (Some x)
  with assms(1) have eq: "p = x" "s' = s"
    by (auto simp add: vfio_get_address_space_def)
  from find_space_matches_unchanged [OF Some] have mem: "x \<in> set (vfio_address_spaces s)"
    and m: "space_matches s asp x"
    by simp_all
  have again: "vfio_get_address_space asp s' = (p, s')"
    using Some eq by (simp add: vfio_get_address_space_def)
  show ?thesis
    using mem m again eq assms(2)
    by (auto simp add: vfio_put_address_space_def)
qed

theorem vfio_address_space_get_put_witness:
  "fst (vfio_get_address_space 100 state0) = 1
   \<and> vfio_address_spaces (snd (vfio_get_address_space 100 state0)) = [1]
   \<and> vfio_get_address_space 100 (snd (vfio_get_address_space 100 state0))
       = vfio_get_address_space 100 state0
   \<and> vfio_address_spaces (vfio_put_address_space 1 (snd (vfio_get_address_space 100 state0))) = []"
proof -
  obtain p s' where g: "vfio_get_address_space 100 state0 = (p, s')"
    by (cases "vfio_get_address_space 100 state0")
  have none: "\<not> (\<exists>x \<in> set (vfio_address_spaces state0). space_matches state0 100 x)"
    by (simp add: state0_def)
  have p: "p = 1"
    using g by (simp add: vfio_get_address_space_def g_malloc0_def state0_def)
  have h: "space_heap s' p = Some \<lparr>space_as = 100, space_containers = []\<rparr>"
    using g by (auto simp add: vfio_get_address_space_def g_malloc0_def state0_def)
  show ?thesis
    using vfio_address_space_get_put [OF g h] none g p
    by (simp add: state0_def)
qed

section \<open>Properties of the reset handler\<close>

lemma query_devices_log:
  "snd (query_devices ops ds (h, lg)) = lg @ map ComputeNeedsReset ds"
  by (induction ds arbitrary: h lg) auto

lemma query_groups_log:
  "snd (query_groups ops s gs (h, lg))
     = lg @ map ComputeNeedsReset (concat (map (group_devices s) gs))"
proof (induction gs arbitrary: h lg)
  case Nil
  then show ?case by simp
next
  case (Cons g gs)
  obtain h1 lg1 where q: "query_devices ops (group_devices s g) (h, lg) = (h1, lg1)"
    by (cases "query_devices ops (group_devices s g) (h, lg)")
  then have "lg1 = lg @ map ComputeNeedsReset (group_devices s g)"
    using query_devices_log [of ops "group_devices s g" h lg] by simp
  with Cons.IH [of h1 lg1] q show ?case
    by simp
qed

lemma reset_groups_flat:
  "reset_groups ops s gs st = reset_devices ops (concat (map (group_devices s) gs)) st"
proof (induction gs arbitrary: st)
  case Nil
  then show ?case by simp
next
  case (Cons g gs)
  have app: "\<And>xs ys st. reset_devices ops (xs @ ys) st
               = reset_devices ops ys (reset_devices ops xs st)"
  proof -
    fix xs ys and st :: "device_heap \<times> hook_call list"
    show "reset_devices ops (xs @ ys) st = reset_devices ops ys (reset_devices ops xs st)"
      by (induction ops xs st rule: reset_devices.induct) auto
  qed
  from Cons show ?case
    by (simp add: app)
qed

lemma reset_devices_order:
  "snd (reset_devices ops ds (h, lg)) = lg @ map HotResetMulti (reset_order ops ds h)"
  by (induction ds arbitrary: h lg) auto

lemma reset_order_filter:
  assumes "distinct ds"
    and "\<forall>d h x. x \<noteq> d \<longrightarrow> needs_reset (vfio_hot_reset_multi ops d h x) = needs_reset (h x)"
  shows "reset_order ops ds h = filter (\<lambda>d. needs_reset (h d)) ds"
  using assms(1)
proof (induction ds arbitrary: h)
  case Nil
  then show ?case by simp
next
  case (Cons d ds)
  have keep: "filter (\<lambda>x. needs_reset (vfio_hot_reset_multi ops d h x)) ds
                = filter (\<lambda>x. needs_reset (h x)) ds"
  proof (rule filter_cong [OF refl])
    fix x assume "x \<in> set ds"
    with Cons.prems have "x \<noteq> d" by auto
    with assms(2) show "needs_reset (vfio_hot_reset_multi ops d h x) = needs_reset (h x)"
      by simp
  qed
  from Cons.prems have "distinct ds" by simp
  with Cons.IH keep show ?case
    by simp
qed

text \<open>
  C8, as the code has it.  The handler first calls the needs-reset query hook on every
  device of every registered group, in list order, and calls the hot-reset hook only after
  all these queries.  The second pass hot-resets a device when its \<^verbatim>\<open>needs_reset\<close> flag is
  set at the moment the pass reaches it; when no hot-reset hook changes the flag of a
  device other than its own (and no device is listed twice), the devices hot-reset are
  exactly those whose flag is set after the query phase.
\<close>

theorem vfio_reset_handler_two_phases:
  assumes "queried = fst (query_groups ops s (vfio_group_list s) (h, lg))"
  shows "snd (vfio_reset_handler ops s (h, lg))
           = lg @ map ComputeNeedsReset (all_devices s)
                @ map HotResetMulti (reset_order ops (all_devices s) queried)
       \<and> (distinct (all_devices s)
            \<and> (\<forall>d h x. x \<noteq> d \<longrightarrow>
                  needs_reset (vfio_hot_reset_multi ops d h x) = needs_reset (h x))
          \<longrightarrow> reset_order ops (all_devices s) queried
                = filter (\<lambda>d. needs_reset (queried d)) (all_devices s))"
proof -
  obtain h1 lg1 where q: "query_groups ops s (vfio_group_list s) (h, lg) = (h1, lg1)"
    by (cases "query_groups ops s (vfio_group_list s) (h, lg)")
  have lg1: "lg1 = lg @ map ComputeNeedsReset (all_devices s)"
    using query_groups_log [of ops s "vfio_group_list s" h lg] q
    by (simp add: all_devices_def)
  have "snd (vfio_reset_handler ops s (h, lg))
          = snd (reset_devices ops (all_devices s) (h1, lg1))"
    by (simp add: vfio_reset_handler_def q reset_groups_flat all_devices_def)
  also have "\<dots> = lg1 @ map HotResetMulti (reset_order ops (all_devices s) h1)"
    by (rule reset_devices_order)
  finally have log: "snd (vfio_reset_handler ops s (h, lg))
           = lg @ map ComputeNeedsReset (all_devices s)
                @ map HotResetMulti (reset_order ops (all_devices s) queried)"
    using lg1 q assms by simp
  show ?thesis
    using log reset_order_filter [of "all_devices s" ops queried] by blast
qed

theorem vfio_reset_handler_two_phases_witness:
  "snd (vfio_reset_handler single_ops two_groups (devices0, []))
     = [ComputeNeedsReset 10, ComputeNeedsReset 11, HotResetMulti 10, HotResetMulti 11]"
proof -
  have d: "all_devices two_groups = [10, 11]"
    by (simp add: all_devices_def two_groups_def state0_def group_devices_def)
  have dist: "distinct (all_devices two_groups)"
    by (simp add: d)
  have own: "\<forall>d h x. x \<noteq> d \<longrightarrow>
      needs_reset (vfio_hot_reset_multi single_ops d h x) = needs_reset (h x)"
    by (simp add: single_ops_def)
  have q: "fst (query_groups single_ops two_groups (vfio_group_list two_groups) (devices0, []))
             = (devices0(10 := dev0\<lparr>needs_reset := True\<rparr>))(11 := dev0\<lparr>needs_reset := True\<rparr>)"
    by (simp add: two_groups_def state0_def group_devices_def single_ops_def devices0_def)
  from vfio_reset_handler_two_phases [OF refl, of single_ops two_groups devices0 "[]"] dist own
  show ?thesis
    by (simp add: d q)
qed

text \<open>
  With a hot-reset hook that clears the flags of the whole reset domain, both devices are
  flagged after the query phase, yet only the first is hot-reset: the second pass finds
  the flag of the second device already cleared.
\<close>

theorem vfio_reset_handler_skips_flagged_device:
  "needs_reset (fst (query_groups domain_ops two_groups (vfio_group_list two_groups)
                       (devices0, [])) 11)
   \<and> snd (vfio_reset_handler domain_ops two_groups (devices0, []))
       = [ComputeNeedsReset 10, ComputeNeedsReset 11, HotResetMulti 10]"
  by (simp add: vfio_reset_handler_def two_groups_def state0_def group_devices_def
      domain_ops_def devices0_def)

section \<open>Properties of vfio_region_mmap\<close>

lemma rollback_effect:
  "i \<le> length ms \<Longrightarrow> vfio_region_mmap_rollback K ms i w = (ms', w') \<Longrightarrow>
   length ms' = length ms
   \<and> (\<forall>j < i. mmap_ptr (ms' ! j) = None \<and> \<not> mem_installed (ms' ! j))
   \<and> (\<forall>j. i \<le> j \<longrightarrow> ms' ! j = ms ! j)
   \<and> (\<forall>j < length ms. mmap_size (ms' ! j) = mmap_size (ms ! j)
                      \<and> mmap_offset (ms' ! j) = mmap_offset (ms ! j))
   \<and> map fst (trace w') = map fst (trace w)
        @ map (\<lambda>j. MUNMAP (mmap_addr (ms ! j)) (mmap_size (ms ! j))) (rev [0..<i])"
proof (induction i arbitrary: ms w)
  case 0
  then show ?case by simp
next
  case (Suc i)
  let ?m = "ms ! i"
  let ?ms1 = "ms[i := ?m\<lparr>mmap_ptr := None, mem_installed := False\<rparr>]"
  obtain rep w1 where sc: "syscall K (MUNMAP (mmap_addr ?m) (mmap_size ?m)) w = (rep, w1)"
    by (cases "syscall K (MUNMAP (mmap_addr ?m) (mmap_size ?m)) w")
  then have tr1: "map fst (trace w1) = map fst (trace w) @ [MUNMAP (mmap_addr ?m) (mmap_size ?m)]"
    by (auto simp add: syscall_def Let_def)
  from Suc.prems sc have rec: "vfio_region_mmap_rollback K ?ms1 i w1 = (ms', w')"
    by (simp add: Let_def)
  from Suc.prems have len: "i \<le> length ?ms1" by simp
  from Suc.IH [OF len rec]
  have l: "length ms' = length ms"
    and low: "\<forall>j < i. mmap_ptr (ms' ! j) = None \<and> \<not> mem_installed (ms' ! j)"
    and keep: "\<forall>j. i \<le> j \<longrightarrow> ms' ! j = ?ms1 ! j"
    and fields1: "\<forall>j < length ?ms1. mmap_size (ms' ! j) = mmap_size (?ms1 ! j)
                      \<and> mmap_offset (ms' ! j) = mmap_offset (?ms1 ! j)"
    and tr: "map fst (trace w') = map fst (trace w1)
        @ map (\<lambda>j. MUNMAP (mmap_addr (?ms1 ! j)) (mmap_size (?ms1 ! j))) (rev [0..<i])"
    by simp_all
  have fields: "\<forall>j < length ms. mmap_size (ms' ! j) = mmap_size (ms ! j)
                      \<and> mmap_offset (ms' ! j) = mmap_offset (ms ! j)"
    using fields1 Suc.prems(1) by (auto simp add: nth_list_update)
  have at_i: "mmap_ptr (ms' ! i) = None \<and> \<not> mem_installed (ms' ! i)"
    using keep Suc.prems(1) by simp
  have lowS: "\<forall>j < Suc i. mmap_ptr (ms' ! j) = None \<and> \<not> mem_installed (ms' ! j)"
    using low at_i by (auto simp add: less_Suc_eq)
  have keepS: "\<forall>j. Suc i \<le> j \<longrightarrow> ms' ! j = ms ! j"
    using keep by auto
  have same: "map (\<lambda>j. MUNMAP (mmap_addr (?ms1 ! j)) (mmap_size (?ms1 ! j))) (rev [0..<i])
            = map (\<lambda>j. MUNMAP (mmap_addr (ms ! j)) (mmap_size (ms ! j))) (rev [0..<i])"
    by (rule map_cong) auto
  show ?case
    using l lowS keepS fields tr tr1 same by simp
qed

lemma mmap_loop_failure:
  assumes "i \<le> k" and "k < length ms" and "length ms = length (mmaps region)"
    and "\<forall>j < length ms. mmap_size (ms ! j) = mmap_size (mmaps region ! j)
                       \<and> mmap_offset (ms ! j) = mmap_offset (mmaps region ! j)"
    and "trace w = mmap_history K region tr i"
    and "fails_at K region tr k"
    and "\<forall>j < i. mmap_ptr (ms ! j) = Some (rv (mmap_reply K region tr j))"
    and "vfio_region_mmap_loop K region i ms w = (ret, ms', w')"
  shows "ret = - rerrno (mmap_reply K region tr k)
       \<and> length ms' = length ms
       \<and> (\<forall>j < k. mmap_ptr (ms' ! j) = None \<and> \<not> mem_installed (ms' ! j))
       \<and> mmap_ptr (ms' ! k) = None
       \<and> (\<forall>j. k < j \<longrightarrow> ms' ! j = ms ! j)
       \<and> mem_installed (ms' ! k) = mem_installed (ms ! k)
       \<and> (\<forall>j < length ms. mmap_size (ms' ! j) = mmap_size (ms ! j)
                          \<and> mmap_offset (ms' ! j) = mmap_offset (ms ! j))
       \<and> map fst (trace w') = map fst (mmap_history K region tr (Suc k))
           @ map (\<lambda>j. MUNMAP (rv (mmap_reply K region tr j)) (mmap_size (mmaps region ! j)))
                 (rev [0..<k])"
  using assms
proof (induction "k - i" arbitrary: i ms w)
  case 0
  then have ik: "i = k" by simp
  let ?m = "ms ! k"
  have req: "MMAP (mmap_size ?m) (region_prot region) (dev_fd (vbasedev region))
                  (fd_offset region + mmap_offset ?m) = mmap_request region k"
    using "0.prems"(2,4) by (simp add: mmap_request_def)
  have rep: "K (trace w) (mmap_request region k) = mmap_reply K region tr k"
    using "0.prems"(5) ik by (simp add: mmap_reply_def)
  have failed: "rv (mmap_reply K region tr k) = MAP_FAILED"
    using "0.prems"(6) by (simp add: fails_at_def)
  define w1 where "w1 = snd (syscall K (mmap_request region k) w)"
  have w1: "syscall K (mmap_request region k) w = (mmap_reply K region tr k, w1)"
    by (simp add: w1_def syscall_def Let_def rep)
  have errno1: "errno w1 = rerrno (mmap_reply K region tr k)"
    using failed by (simp add: w1_def syscall_def Let_def rep MAP_FAILED_def)
  have tr1: "trace w1 = mmap_history K region tr (Suc k)"
    using "0.prems"(5) ik by (simp add: w1_def syscall_def Let_def rep mmap_reply_def)
  let ?ms1 = "ms[k := ?m\<lparr>mmap_ptr := None\<rparr>]"
  obtain ms2 w2 where rb: "vfio_region_mmap_rollback K ?ms1 k w1 = (ms2, w2)"
    by (cases "vfio_region_mmap_rollback K ?ms1 k w1")
  have res: "ret = - errno w1" "ms' = ms2" "w' = w2"
    using "0.prems"(8) "0.prems"(2) ik req w1 failed rb
    by (simp_all add: Let_def)
  have len: "k \<le> length ?ms1" using "0.prems"(2) by simp
  from rollback_effect [OF len rb]
  have l: "length ms2 = length ms"
    and low: "\<forall>j < k. mmap_ptr (ms2 ! j) = None \<and> \<not> mem_installed (ms2 ! j)"
    and keep: "\<forall>j. k \<le> j \<longrightarrow> ms2 ! j = ?ms1 ! j"
    and fields1: "\<forall>j < length ?ms1. mmap_size (ms2 ! j) = mmap_size (?ms1 ! j)
                      \<and> mmap_offset (ms2 ! j) = mmap_offset (?ms1 ! j)"
    and tr2: "map fst (trace w2) = map fst (trace w1)
        @ map (\<lambda>j. MUNMAP (mmap_addr (?ms1 ! j)) (mmap_size (?ms1 ! j))) (rev [0..<k])"
    by simp_all
  have fields: "\<forall>j < length ms. mmap_size (ms2 ! j) = mmap_size (ms ! j)
                      \<and> mmap_offset (ms2 ! j) = mmap_offset (ms ! j)"
    using fields1 "0.prems"(2) by (auto simp add: nth_list_update)
  have atk: "mmap_ptr (ms2 ! k) = None"
    using keep "0.prems"(2) by simp
  have instk: "mem_installed (ms2 ! k) = mem_installed (ms ! k)"
    using keep "0.prems"(2) by simp
  have above: "\<forall>j. k < j \<longrightarrow> ms2 ! j = ms ! j"
    using keep by auto
  have same: "map (\<lambda>j. MUNMAP (mmap_addr (?ms1 ! j)) (mmap_size (?ms1 ! j))) (rev [0..<k])
            = map (\<lambda>j. MUNMAP (rv (mmap_reply K region tr j)) (mmap_size (mmaps region ! j)))
                  (rev [0..<k])"
  proof (rule map_cong [OF refl])
    fix j assume "j \<in> set (rev [0..<k])"
    then have jk: "j < k" by simp
    with "0.prems"(2,4,7) ik show "MUNMAP (mmap_addr (?ms1 ! j)) (mmap_size (?ms1 ! j))
        = MUNMAP (rv (mmap_reply K region tr j)) (mmap_size (mmaps region ! j))"
      by (simp add: mmap_addr_def)
  qed
  show ?case
    using res errno1 l low atk instk fields above tr2 tr1 same by simp
next
  case (Suc n)
  then have ik: "i < k" by simp
  let ?m = "ms ! i"
  have ilen: "i < length ms" using ik Suc.prems(2) by simp
  have req: "MMAP (mmap_size ?m) (region_prot region) (dev_fd (vbasedev region))
                  (fd_offset region + mmap_offset ?m) = mmap_request region i"
    using ilen Suc.prems(4) by (simp add: mmap_request_def)
  have rep: "K (trace w) (mmap_request region i) = mmap_reply K region tr i"
    using Suc.prems(5) by (simp add: mmap_reply_def)
  have ok: "rv (mmap_reply K region tr i) \<noteq> MAP_FAILED"
    using Suc.prems(6) ik by (simp add: fails_at_def)
  define w1 where "w1 = snd (syscall K (mmap_request region i) w)"
  have w1: "syscall K (mmap_request region i) w = (mmap_reply K region tr i, w1)"
    by (simp add: w1_def syscall_def Let_def rep)
  have tr1: "trace w1 = mmap_history K region tr (Suc i)"
    using Suc.prems(5) by (simp add: w1_def syscall_def Let_def rep mmap_reply_def)
  let ?ms1 = "ms[i := ?m\<lparr>mmap_ptr := Some (rv (mmap_reply K region tr i)), mem_installed := True\<rparr>]"
  have rec: "vfio_region_mmap_loop K region (Suc i) ?ms1 w1 = (ret, ms', w')"
    using Suc.prems(8) ilen req w1 ok by (simp add: Let_def)
  have n: "n = k - Suc i" using Suc.hyps(2) by simp
  have p1: "Suc i \<le> k" using ik by simp
  have p2: "k < length ?ms1" using Suc.prems(2) by simp
  have p3: "length ?ms1 = length (mmaps region)" using Suc.prems(3) by simp
  have p4: "\<forall>j < length ?ms1. mmap_size (?ms1 ! j) = mmap_size (mmaps region ! j)
                       \<and> mmap_offset (?ms1 ! j) = mmap_offset (mmaps region ! j)"
    using Suc.prems(4) ilen by (auto simp add: nth_list_update)
  have p7: "\<forall>j < Suc i. mmap_ptr (?ms1 ! j) = Some (rv (mmap_reply K region tr j))"
    using Suc.prems(7) ilen by (auto simp add: nth_list_update less_Suc_eq)
  from Suc.hyps(1) [OF n p1 p2 p3 p4 tr1 Suc.prems(6) p7 rec]
  have r: "ret = - rerrno (mmap_reply K region tr k)"
    and l: "length ms' = length ?ms1"
    and low: "\<forall>j < k. mmap_ptr (ms' ! j) = None \<and> \<not> mem_installed (ms' ! j)"
    and atk: "mmap_ptr (ms' ! k) = None"
    and above: "\<forall>j. k < j \<longrightarrow> ms' ! j = ?ms1 ! j"
    and instk1: "mem_installed (ms' ! k) = mem_installed (?ms1 ! k)"
    and fields1: "\<forall>j < length ?ms1. mmap_size (ms' ! j) = mmap_size (?ms1 ! j)
                          \<and> mmap_offset (ms' ! j) = mmap_offset (?ms1 ! j)"
    and tr: "map fst (trace w') = map fst (mmap_history K region tr (Suc k))
           @ map (\<lambda>j. MUNMAP (rv (mmap_reply K region tr j)) (mmap_size (mmaps region ! j)))
                 (rev [0..<k])"
    by simp_all
  have above': "\<forall>j. k < j \<longrightarrow> ms' ! j = ms ! j"
    using above ik by simp
  have instk: "mem_installed (ms' ! k) = mem_installed (ms ! k)"
    using instk1 ik by simp
  have fields: "\<forall>j < length ms. mmap_size (ms' ! j) = mmap_size (ms ! j)
                          \<and> mmap_offset (ms' ! j) = mmap_offset (ms ! j)"
    using fields1 ilen by (auto simp add: nth_list_update)
  show ?case
    using r l low atk instk fields above' tr by simp
qed


lemma mmap_history_requests:
  "map fst (mmap_history K region tr n) = map fst tr @ map (mmap_request region) [0..<n]"
  by (induction n) (simp_all add: Let_def)

text \<open>
  C3, as the code has it.  When the memory-mapping of window \<open>k\<close> fails after windows
  \<open>0..k-1\<close> mapped successfully, the call undoes them all before it returns.  It returns
  the negated \<^verbatim>\<open>errno\<close> of the failed \<^verbatim>\<open>mmap\<close>.  Immediately afterwards every window
  below \<open>k\<close> is unmapped (its pointer is \<^verbatim>\<open>NULL\<close>) and removed (not installed), window \<open>k\<close>
  has the pointer \<^verbatim>\<open>NULL\<close>, every later window is as it was, and nothing else of a window
  has changed; so of a region that had no active window, no window is active.  The host
  has seen the \<open>k+1\<close> \<^verbatim>\<open>mmap\<close> requests of windows \<open>0..k\<close> followed by the \<^verbatim>\<open>munmap\<close> of
  windows \<open>k-1\<close> down to 0, each with the address its \<^verbatim>\<open>mmap\<close> had returned.
\<close>

theorem vfio_region_mmap_failure_rolls_back:
  assumes "region_mem region"
    and "\<forall>m \<in> set (mmaps region). \<not> active m"
    and "k < length (mmaps region)"
    and "fails_at K region (trace w) k"
    and "vfio_region_mmap K region w = (ret, region', w')"
  shows "ret = - rerrno (mmap_reply K region (trace w) k)
       \<and> mmaps region' =
           map (\<lambda>j. if j < k then (mmaps region ! j)\<lparr>mmap_ptr := None, mem_installed := False\<rparr>
                     else if j = k then (mmaps region ! j)\<lparr>mmap_ptr := None\<rparr>
                     else mmaps region ! j)
               [0..<length (mmaps region)]
       \<and> (\<forall>m \<in> set (mmaps region'). \<not> active m)
       \<and> map fst (trace w') = map fst (trace w)
           @ map (mmap_request region) [0..<Suc k]
           @ map (\<lambda>j. MUNMAP (rv (mmap_reply K region (trace w) j))
                              (mmap_size (mmaps region ! j))) (rev [0..<k])"
proof -
  obtain r ms wl where loop: "vfio_region_mmap_loop K region 0 (mmaps region) w = (r, ms, wl)"
    by (cases "vfio_region_mmap_loop K region 0 (mmaps region) w")
  with assms(1,5) have res: "ret = r" "region' = region\<lparr>mmaps := ms\<rparr>" "w' = wl"
    by (simp_all add: vfio_region_mmap_def)
  have h0: "trace w = mmap_history K region (trace w) 0"
    by simp
  from mmap_loop_failure [where i = 0 and ms = "mmaps region", OF _ assms(3) refl _ h0 assms(4) _ loop]
  have r: "r = - rerrno (mmap_reply K region (trace w) k)"
    and l: "length ms = length (mmaps region)"
    and low: "\<forall>j < k. mmap_ptr (ms ! j) = None \<and> \<not> mem_installed (ms ! j)"
    and atk: "mmap_ptr (ms ! k) = None"
    and above: "\<forall>j. k < j \<longrightarrow> ms ! j = mmaps region ! j"
    and instk: "mem_installed (ms ! k) = mem_installed (mmaps region ! k)"
    and fields: "\<forall>j < length (mmaps region).
                   mmap_size (ms ! j) = mmap_size (mmaps region ! j)
                   \<and> mmap_offset (ms ! j) = mmap_offset (mmaps region ! j)"
    and tr: "map fst (trace wl) = map fst (mmap_history K region (trace w) (Suc k))
           @ map (\<lambda>j. MUNMAP (rv (mmap_reply K region (trace w) j))
                              (mmap_size (mmaps region ! j))) (rev [0..<k])"
    by simp_all
  have exact: "ms = map (\<lambda>j. if j < k
                              then (mmaps region ! j)\<lparr>mmap_ptr := None, mem_installed := False\<rparr>
                              else if j = k then (mmaps region ! j)\<lparr>mmap_ptr := None\<rparr>
                              else mmaps region ! j)
                        [0..<length (mmaps region)]"
  proof (rule nth_equalityI)
    show "length ms = length (map (\<lambda>j. if j < k
                              then (mmaps region ! j)\<lparr>mmap_ptr := None, mem_installed := False\<rparr>
                              else if j = k then (mmaps region ! j)\<lparr>mmap_ptr := None\<rparr>
                              else mmaps region ! j)
                        [0..<length (mmaps region)])"
      using l by simp
  next
    fix j assume "j < length ms"
    then have jl: "j < length (mmaps region)"
      using l by simp
    consider "j < k" | "j = k" | "k < j" by linarith
    then have "ms ! j = (if j < k
                         then (mmaps region ! j)\<lparr>mmap_ptr := None, mem_installed := False\<rparr>
                         else if j = k then (mmaps region ! j)\<lparr>mmap_ptr := None\<rparr>
                         else mmaps region ! j)"
    proof cases
      case 1
      have "ms ! j = (mmaps region ! j)\<lparr>mmap_ptr := None, mem_installed := False\<rparr>"
        using low fields jl 1 by (intro VFIOMmap.equality) simp_all
      with 1 show ?thesis by simp
    next
      case 2
      have "ms ! j = (mmaps region ! j)\<lparr>mmap_ptr := None\<rparr>"
        using atk instk fields jl 2 by (intro VFIOMmap.equality) simp_all
      with 2 show ?thesis by simp
    next
      case 3
      with above show ?thesis by simp
    qed
    with jl show "ms ! j = map (\<lambda>j. if j < k
                              then (mmaps region ! j)\<lparr>mmap_ptr := None, mem_installed := False\<rparr>
                              else if j = k then (mmaps region ! j)\<lparr>mmap_ptr := None\<rparr>
                              else mmaps region ! j)
                        [0..<length (mmaps region)] ! j"
      by simp
  qed
  have inactive: "\<forall>m \<in> set ms. \<not> active m"
  proof
    fix m assume "m \<in> set ms"
    then obtain j where j: "j < length ms" "m = ms ! j"
      by (auto simp add: in_set_conv_nth)
    consider "j < k" | "j = k" | "k < j" by linarith
    then show "\<not> active m"
    proof cases
      case 1
      with low j show ?thesis by (simp add: active_def)
    next
      case 2
      with atk j show ?thesis by (simp add: active_def)
    next
      case 3
      with above j have "m = mmaps region ! j" by simp
      moreover have "mmaps region ! j \<in> set (mmaps region)"
        using j l by simp
      ultimately show ?thesis using assms(2) by simp
    qed
  qed
  have tr': "map fst (trace wl) = map fst (trace w)
           @ map (mmap_request region) [0..<Suc k]
           @ map (\<lambda>j. MUNMAP (rv (mmap_reply K region (trace w) j))
                              (mmap_size (mmaps region ! j))) (rev [0..<k])"
    using tr by (simp add: mmap_history_requests del: mmap_history.simps upt_Suc)
  have m': "mmaps region' = ms"
    using res by simp
  show ?thesis
    unfolding m' using res(1,3) r exact inactive tr' by blast
qed

theorem vfio_region_mmap_failure_rolls_back_witness:
  "fails_at second_window_fails region2 (trace world0) 1
   \<and> fst (vfio_region_mmap second_window_fails region2 world0) = - 12
   \<and> mmaps (fst (snd (vfio_region_mmap second_window_fails region2 world0)))
       = [\<lparr>mmap_offset = 0, mmap_size = 0x1000, mmap_ptr = None, mem_installed = False\<rparr>,
          \<lparr>mmap_offset = 0x1000, mmap_size = 0x1000, mmap_ptr = None, mem_installed = False\<rparr>]
   \<and> map active (mmaps (fst (snd (vfio_region_mmap second_window_fails region2 world0))))
       = [False, False]"
proof -
  obtain ret region' w' where res:
    "vfio_region_mmap second_window_fails region2 world0 = (ret, region', w')"
    by (cases "vfio_region_mmap second_window_fails region2 world0") auto
  have mem: "region_mem region2"
    by (simp add: region2_def region0_def)
  have fresh: "\<forall>m \<in> set (mmaps region2). \<not> active m"
    by (simp add: region2_def active_def)
  have k: "(1::nat) < length (mmaps region2)"
    by (simp add: region2_def)
  have f: "fails_at second_window_fails region2 (trace world0) 1"
    by (simp add: fails_at_def mmap_reply_def mmap_request_def region2_def region0_def
        second_window_fails_def MAP_FAILED_def)
  have e: "rerrno (mmap_reply second_window_fails region2 (trace world0) 1) = 12"
    by (simp add: mmap_reply_def mmap_request_def region2_def region0_def
        second_window_fails_def)
  have ms: "mmaps region2 =
       [\<lparr>mmap_offset = 0, mmap_size = 0x1000, mmap_ptr = None, mem_installed = False\<rparr>,
        \<lparr>mmap_offset = 0x1000, mmap_size = 0x1000, mmap_ptr = None, mem_installed = False\<rparr>]"
    by (simp add: region2_def)
  from vfio_region_mmap_failure_rolls_back [OF mem fresh k f res] e
  have r: "ret = - 12"
    and x: "mmaps region' =
           map (\<lambda>j. if j < 1 then (mmaps region2 ! j)\<lparr>mmap_ptr := None, mem_installed := False\<rparr>
                     else if j = 1 then (mmaps region2 ! j)\<lparr>mmap_ptr := None\<rparr>
                     else mmaps region2 ! j)
               [0..<length (mmaps region2)]"
    by simp_all
  have "mmaps region' =
       [\<lparr>mmap_offset = 0, mmap_size = 0x1000, mmap_ptr = None, mem_installed = False\<rparr>,
        \<lparr>mmap_offset = 0x1000, mmap_size = 0x1000, mmap_ptr = None, mem_installed = False\<rparr>]"
    unfolding x ms by (simp add: upt_rec)
  with r f res show ?thesis
    by (simp add: active_def)
qed

text \<open>
  The claim leaves windows \<open>[0, k)\<close> active.  With two windows of which the second fails
  (\<open>k = 1\<close>), window 0 is mapped and installed and then, before the call returns, removed,
  unmapped and reset to \<^verbatim>\<open>NULL\<close>: it is not active afterwards.
\<close>

theorem vfio_region_mmap_first_window_not_kept:
  "fails_at second_window_fails region2 (trace world0) 1
   \<and> \<not> active (mmaps (fst (snd (vfio_region_mmap second_window_fails region2 world0))) ! 0)
   \<and> map fst (trace (snd (snd (vfio_region_mmap second_window_fails region2 world0))))
       = [MMAP 0x1000 3 7 0, MMAP 0x1000 3 7 0x1000, MUNMAP 0x7f0000000000 0x1000]"
  by (simp add: fails_at_def mmap_reply_def mmap_request_def region2_def region0_def
      second_window_fails_def MAP_FAILED_def vfio_region_mmap_def syscall_def Let_def
      region_prot_def VFIO_REGION_INFO_FLAG_READ_def VFIO_REGION_INFO_FLAG_WRITE_def
      PROT_READ_def PROT_WRITE_def dev0_def world0_def active_def mmap_addr_def)

section \<open>Properties of the memory listener\<close>



























section \<open>Properties of vfio_get_group\<close>

lemma find_group_matches:
  "find (group_matches v gid) xs = Some p \<Longrightarrow> p \<in> set xs \<and> group_matches v gid p"
  by (induction xs) (auto split: if_splits)

text \<open>
  C10.  When the group id is already registered, that is, some group on
  \<^verbatim>\<open>vfio_group_list\<close> has it, \<open>p\<close> being the first, the call decides on
  \<^verbatim>\<open>group->container->space->as\<close> alone.  If that is another address space than the one
  requested, the call returns \<^verbatim>\<open>NULL\<close>; the lists and heaps of groups, Containers and
  address spaces are unchanged and no host call is made (an error is reported).  If it is
  the requested one, the call returns the existing group \<open>p\<close> and the state is exactly as
  before.
\<close>

theorem vfio_get_group_registered:
  assumes "find (group_matches (m_vfio m) gid) (vfio_group_list (m_vfio m)) = Some p"
    and "group_address_space (m_vfio m) p = Some a"
    and "vfio_get_group K api kvm gid asp m = out"
  shows "p \<in> set (vfio_group_list (m_vfio m)) \<and> group_matches (m_vfio m) gid p
       \<and> (a \<noteq> asp \<longrightarrow>
            (\<exists>m'. out = Return None m' \<and> m_vfio m' = m_vfio m
                  \<and> trace (m_host m') = trace (m_host m)
                  \<and> m_mr_refs m' = m_mr_refs m \<and> m_notifiers m' = m_notifiers m
                  \<and> m_listeners m' = m_listeners m))
       \<and> (a = asp \<longrightarrow> out = Return (Some p) m)"
  using assms find_group_matches [OF assms(1)]
  by (auto simp add: vfio_get_group_def mreport_def error_report_def)

theorem vfio_get_group_registered_witness:
  "vfio_get_group ok_host api0 False 26 100 machine1 = Return (Some 20) machine1
   \<and> (\<exists>m'. vfio_get_group ok_host api0 False 26 101 machine1 = Return None m'
          \<and> m_vfio m' = m_vfio machine1 \<and> trace (m_host m') = trace (m_host machine1))"
proof -
  have f: "find (group_matches (m_vfio machine1) 26) (vfio_group_list (m_vfio machine1)) = Some 20"
    by (simp add: machine1_def state0_def group_matches_def)
  have a: "group_address_space (m_vfio machine1) 20 = Some 100"
    by (simp add: machine1_def state0_def group_address_space_def container0_def)
  from vfio_get_group_registered [OF f a refl, where K = ok_host and api = api0
                                     and kvm = False and asp = 100]
       vfio_get_group_registered [OF f a refl, where K = ok_host and api = api0
                                     and kvm = False and asp = 101]
  show ?thesis
    by auto
qed

end
